theory Spec2Isabelle
  imports Main "HOL-Library.Sublist"
begin

section \<open>Python strings and dictionaries\<close>

text \<open>
  A Python \<open>str\<close> is a \<^typ>\<open>string\<close>; a character is read as a code point below 256.
  A \<open>dict\<close> is an association list in insertion order, as \<open>dict.items()\<close> walks it:
  assigning to a key that is present keeps its place, a new key goes to the end.
  Names of the source that start with an underscore lose it (\<open>_inject_context\<close> is
  \<open>inject_context\<close>); record fields carry a prefix where two classes share a field name.
\<close>

type_synonym 'v dict = "(string \<times> 'v) list"

fun dict_set :: "'v dict \<Rightarrow> string \<Rightarrow> 'v \<Rightarrow> 'v dict" where
  "dict_set [] k v = [(k, v)]"
| "dict_set ((k', v') # d) k v = (if k' = k then (k, v) # d else (k', v') # dict_set d k v)"

fun dict_get :: "'v dict \<Rightarrow> string \<Rightarrow> 'v \<Rightarrow> 'v" where
  "dict_get [] k dflt = dflt"
| "dict_get ((k', v') # d) k dflt = (if k' = k then v' else dict_get d k dflt)"

text \<open>\<open>sep.join(xs)\<close>\<close>

fun py_join :: "string \<Rightarrow> string list \<Rightarrow> string" where
  "py_join sep [] = []"
| "py_join sep [x] = x"
| "py_join sep (x # y # ys) = x @ sep @ py_join sep (y # ys)"

text \<open>\<open>str(n)\<close> for a non-negative integer, as the f-strings format an index.\<close>

fun str_nat :: "nat \<Rightarrow> string" where
  "str_nat n =
     (if n < 10 then [''0123456789'' ! n]
      else str_nat (n div 10) @ [''0123456789'' ! (n mod 10)])"

declare str_nat.simps [simp del]

text \<open>
  \<open>str.isspace\<close> on the code points below 256, and \<open>s.strip()\<close> with no argument.
\<close>

definition is_space :: "char \<Rightarrow> bool" where
  "is_space c =
     (of_char c \<in> {9, 10, 11, 12, 13, 28, 29, 30, 31, 32, 133, 160 :: nat})"

definition py_strip :: "string \<Rightarrow> string" where
  "py_strip s = rev (dropWhile is_space (rev (dropWhile is_space s)))"

section \<open>The data of the orchestrator\<close>

text \<open>
  The dictionaries \<open>_extract_artifacts\<close> builds have the three keys \<open>type\<close>, \<open>name\<close>,
  \<open>content\<close>; they are the only artifacts the service ever holds.
\<close>

record artifact =
  a_type :: string
  a_name :: string
  a_content :: string

text \<open>
  The values of a context or parameter dictionary are \<open>Any\<close>. The service puts step
  results (strings) and artifact lists into the context, and applies \<open>str\<close> to the values;
  every other object is kept as the text \<open>str\<close> gives for it.
\<close>

datatype pyval = PyStr string | PyArtifacts "artifact list" | PyObj string

section \<open>The artifact extractor\<close>

definition fence :: string where
  "fence = ''```''"

text \<open>
  \<open>re.findall(r"```jsx(.*?)```", result, re.DOTALL)\<close>: the matcher tries each start
  position from the left. Where the opening literal matches, the lazy group grows one
  character at a time (any character, with DOTALL) until the closing fence matches; the
  group is reported and the scan resumes after the match. Where no closing fence
  follows, the attempt fails and the next start position is tried.
\<close>

fun lazy_group :: "string \<Rightarrow> (string \<times> string) option" where
  "lazy_group [] = None"
| "lazy_group (c # cs) =
     (if prefix fence (c # cs) then Some ([], drop (length fence) (c # cs))
      else (case lazy_group cs of
              None \<Rightarrow> None
            | Some (g, rest) \<Rightarrow> Some (c # g, rest)))"

function findall :: "string \<Rightarrow> string \<Rightarrow> string list" where
  "findall opener [] = []"
| "findall opener (c # cs) =
     (if prefix opener (c # cs) then
        (case lazy_group (drop (length opener) (c # cs)) of
           Some (g, rest) \<Rightarrow> g # findall opener rest
         | None \<Rightarrow> findall opener cs)
      else findall opener cs)"
  by pat_completeness auto
termination
proof (relation "measure (\<lambda>(opener, t). length t)")
  have shorter: "lazy_group t = Some (g, rest) \<Longrightarrow> length rest < length t" for t g rest
    by (induction t arbitrary: g) (auto simp: fence_def split: if_splits option.splits)
  fix opener :: string and c cs x2 x y
  assume "lazy_group (drop (length opener) (c # cs)) = Some x2" and "(x, y) = x2"
  then have "length y < length (drop (length opener) (c # cs))"
    using shorter [of "drop (length opener) (c # cs)" x y] by simp
  then show "((opener, y), (opener, c # cs)) \<in> measure (\<lambda>(opener, t). length t)"
    by simp
qed auto

declare findall.simps [simp del]

text \<open>The loop \<open>for i, block in enumerate(blocks): artifacts.append({...})\<close>.\<close>

fun append_blocks ::
  "(nat \<Rightarrow> string \<Rightarrow> artifact) \<Rightarrow> nat \<Rightarrow> string list \<Rightarrow> artifact list \<Rightarrow> artifact list" where
  "append_blocks mk i [] artifacts = artifacts"
| "append_blocks mk i (b # bs) artifacts = append_blocks mk (Suc i) bs (artifacts @ [mk i b])"

definition extract_artifacts :: "string \<Rightarrow> string \<Rightarrow> artifact list" where
  "extract_artifacts step_name result =
     (let artifacts = [];
          jsx_blocks = findall ''```jsx'' result;
          artifacts = append_blocks (\<lambda>i jsx.
              \<lparr>a_type = ''jsx'',
               a_name = step_name @ ''_component_'' @ str_nat i @ ''.jsx'',
               a_content = py_strip jsx\<rparr>) 0 jsx_blocks artifacts;
          tsx_blocks = findall ''```tsx'' result;
          artifacts = append_blocks (\<lambda>i tsx.
              \<lparr>a_type = ''tsx'',
               a_name = step_name @ ''_component_'' @ str_nat i @ ''.tsx'',
               a_content = py_strip tsx\<rparr>) 0 tsx_blocks artifacts;
          css_blocks = findall ''```css'' result;
          artifacts = append_blocks (\<lambda>i css.
              \<lparr>a_type = ''css'',
               a_name = step_name @ ''_styles_'' @ str_nat i @ ''.css'',
               a_content = py_strip css\<rparr>) 0 css_blocks artifacts;
          py_blocks = findall ''```python'' result;
          artifacts = append_blocks (\<lambda>i py.
              \<lparr>a_type = ''python'',
               a_name = step_name @ ''_script_'' @ str_nat i @ ''.py'',
               a_content = py_strip py\<rparr>) 0 py_blocks artifacts
      in artifacts)"

section \<open>The context injector\<close>

text \<open>
  What \<open>str\<close> returns for a list of artifact dictionaries and how an f-string formats
  a model type are Python's business, not the repository's: they are parameters.
\<close>

record python =
  repr_artifacts :: "artifact list \<Rightarrow> string"
  format_model_type :: "string \<Rightarrow> string"

fun py_str :: "python \<Rightarrow> pyval \<Rightarrow> string" where
  "py_str py (PyStr s) = s"
| "py_str py (PyArtifacts as) = repr_artifacts py as"
| "py_str py (PyObj s) = s"

definition inject_context :: "python \<Rightarrow> string \<Rightarrow> pyval dict \<Rightarrow> string" where
  "inject_context py prompt context =
     (let context_str =
            py_join ''\<newline>'' (map (\<lambda>(k, v). ''# '' @ k @ '': '' @ take 200 (py_str py v)) context)
      in prompt @ ''\<newline>\<newline>## Available Context:\<newline>'' @ context_str)"

section \<open>Steps, pipelines and results\<close>

datatype StepStatus = PENDING | RUNNING | SUCCESS | FAILED | SKIPPED

fun status_value :: "StepStatus \<Rightarrow> string" where
  "status_value PENDING = ''PENDING''"
| "status_value RUNNING = ''RUNNING''"
| "status_value SUCCESS = ''SUCCESS''"
| "status_value FAILED = ''FAILED''"
| "status_value SKIPPED = ''SKIPPED''"

text \<open>
  \<open>ModelType\<close> is a \<open>str\<close> enumeration: a member is a string and compares equal to its
  value, so a model type is modelled by its value. The dataclasses do not check their
  fields, so any string can stand in \<open>model_type\<close>.
\<close>

definition CODE_LLAMA :: string where "CODE_LLAMA = ''CodeLlama''"
definition CODE_GEMMA :: string where "CODE_GEMMA = ''CodeGemma''"
definition T5_GEMMA :: string where "T5_GEMMA = ''T5Gemma''"
definition ASSEMBLER :: string where "ASSEMBLER = ''Assembler''"

type_synonym uuid = nat

record StepInput =
  step_name :: string
  model_type :: string
  prompt :: string
  step_context :: "pyval dict"
  parameters :: "pyval dict"

text \<open>Times are readings of a logical clock; \<open>execution_time\<close> is a difference of two.\<close>

record StepOutput =
  so_step_name :: string
  so_status :: StepStatus
  so_result :: "string option"
  so_error :: "string option"
  so_artifacts :: "artifact list"
  so_execution_time :: nat

record OrchestrationPipeline =
  project_id :: uuid
  pipeline_name :: string
  steps :: "StepInput list"
  global_context :: "pyval dict"
  metadata :: "pyval dict"

text \<open>
  The dictionary \<open>execute_pipeline\<close> returns; a key it may leave out (\<open>error\<close>,
  \<open>assembled_code\<close>) is an option.
\<close>

record results =
  r_run_id :: uuid
  r_project_id :: uuid
  r_status :: string
  r_steps :: "StepOutput list"
  r_final_artifacts :: "artifact list"
  r_started_at :: nat
  r_error :: "string option"
  r_assembled_code :: "string option"
  r_finished_at :: "nat option"

record assembler_output =
  asm_assembled_code :: string
  asm_artifacts :: "artifact list"
  asm_error :: "string option"

section \<open>The tables\<close>

record Project =
  p_id :: uuid
  p_name :: string
  p_description :: "string option"
  p_metadata :: "pyval dict option"
  p_owner_id :: "uuid option"
  p_created_at :: nat
  p_updated_at :: "nat option"

record Context =
  c_id :: uuid
  c_project_id :: uuid
  c_key :: string
  c_value :: "pyval option"
  c_updated_at :: "nat option"

record OrchestrationRun =
  run_id :: uuid
  run_project_id :: "uuid option"
  run_status :: "string option"
  run_steps :: "string dict option"
  run_started_at :: "nat option"
  run_finished_at :: "nat option"

record GeneratedArtifact =
  ga_id :: uuid
  ga_project_id :: "uuid option"
  ga_run_id :: "uuid option"
  ga_name :: string
  ga_path :: "string option"
  ga_content :: "string option"
  ga_metadata :: "pyval dict option"
  ga_created_at :: nat

text \<open>
  The session is the four tables in row order. \<open>session.exec(select(T).where(p)).first()\<close>
  is \<^const>\<open>find\<close>; \<open>session.add\<close> of a row that was read and changed, then \<open>commit\<close>,
  rewrites that row. A session whose calls raise is outside the model.
\<close>

record database =
  projects :: "Project list"
  contexts :: "Context list"
  runs :: "OrchestrationRun list"
  artifacts :: "GeneratedArtifact list"

fun update_first :: "('a \<Rightarrow> bool) \<Rightarrow> ('a \<Rightarrow> 'a) \<Rightarrow> 'a list \<Rightarrow> 'a list" where
  "update_first P f [] = []"
| "update_first P f (x # xs) = (if P x then f x # xs else x # update_first P f xs)"

section \<open>The service and what it calls\<close>

text \<open>
  \<open>hf_manager.generate(model_name=..., prompt=..., max_tokens=..., temperature=...)\<close>
  is a call into a backend with a state of its own: it returns the generated text
  (\<^const>\<open>Inr\<close>) or raises (\<^const>\<open>Inl\<close>, with the text of the exception). The
  service holds a manager or \<open>None\<close>.
\<close>

record gen_request =
  model_name :: string
  gen_prompt :: string
  max_tokens :: pyval
  temperature :: pyval

type_synonym 'b generate = "'b \<Rightarrow> gen_request \<Rightarrow> (string + string) \<times> 'b"

text \<open>
  \<open>call_log\<close> only observes: it records each call of \<open>_execute_step\<close> (with the step's
  name) and of \<open>_run_assembler\<close>, and nothing reads it.
\<close>

datatype call = StepCall string | AssemblerCall

record 'b world =
  db :: database
  hf_state :: 'b
  step_history :: "uuid \<rightharpoonup> StepOutput list"
  clock :: nat
  uuid_supply :: nat
  call_log :: "call list"

text \<open>\<open>datetime.now(timezone.utc)\<close> and \<open>uuid4()\<close>.\<close>

definition now :: "'b world \<Rightarrow> nat \<times> 'b world" where
  "now w = (clock w, w\<lparr>clock := Suc (clock w)\<rparr>)"

definition uuid4 :: "'b world \<Rightarrow> uuid \<times> 'b world" where
  "uuid4 w = (uuid_supply w, w\<lparr>uuid_supply := Suc (uuid_supply w)\<rparr>)"

definition execute_code_llama ::
  "'b generate option \<Rightarrow> 'b world \<Rightarrow> string \<Rightarrow> pyval dict \<Rightarrow> string \<times> 'b world" where
  "execute_code_llama hf_manager w the_prompt params =
     (let placeholder = ''[CodeLlama] Placeholder response to: '' @ take 100 the_prompt @ ''...''
      in case hf_manager of
           Some generate \<Rightarrow>
             (case generate (hf_state w)
                     \<lparr>model_name = ''CodeLlama-7b'', gen_prompt = the_prompt,
                      max_tokens = dict_get params ''max_tokens'' (PyObj ''512''),
                      temperature = dict_get params ''temperature'' (PyObj ''0.7'')\<rparr> of
                (Inr result, b) \<Rightarrow> (result, w\<lparr>hf_state := b\<rparr>)
              | (Inl e, b) \<Rightarrow> (placeholder, w\<lparr>hf_state := b\<rparr>))
         | None \<Rightarrow> (placeholder, w))"

definition execute_code_gemma ::
  "'b generate option \<Rightarrow> 'b world \<Rightarrow> string \<Rightarrow> pyval dict \<Rightarrow> string \<times> 'b world" where
  "execute_code_gemma hf_manager w the_prompt params =
     (let placeholder = ''[CodeGemma] Placeholder response to: '' @ take 100 the_prompt @ ''...''
      in case hf_manager of
           Some generate \<Rightarrow>
             (case generate (hf_state w)
                     \<lparr>model_name = ''CodeGemma-7b'', gen_prompt = the_prompt,
                      max_tokens = dict_get params ''max_tokens'' (PyObj ''512''),
                      temperature = dict_get params ''temperature'' (PyObj ''0.7'')\<rparr> of
                (Inr result, b) \<Rightarrow> (result, w\<lparr>hf_state := b\<rparr>)
              | (Inl e, b) \<Rightarrow> (placeholder, w\<lparr>hf_state := b\<rparr>))
         | None \<Rightarrow> (placeholder, w))"

definition execute_t5_gemma ::
  "'b generate option \<Rightarrow> 'b world \<Rightarrow> string \<Rightarrow> pyval dict \<Rightarrow> string \<times> 'b world" where
  "execute_t5_gemma hf_manager w the_prompt params =
     (let placeholder = ''[T5Gemma] Placeholder response to: '' @ take 100 the_prompt @ ''...''
      in case hf_manager of
           Some generate \<Rightarrow>
             (case generate (hf_state w)
                     \<lparr>model_name = ''T5-Gemma'', gen_prompt = the_prompt,
                      max_tokens = dict_get params ''max_tokens'' (PyObj ''512''),
                      temperature = dict_get params ''temperature'' (PyObj ''0.7'')\<rparr> of
                (Inr result, b) \<Rightarrow> (result, w\<lparr>hf_state := b\<rparr>)
              | (Inl e, b) \<Rightarrow> (placeholder, w\<lparr>hf_state := b\<rparr>))
         | None \<Rightarrow> (placeholder, w))"

text \<open>
  The routing of \<open>_execute_step\<close>: the \<open>try\<close> body either gets the text of a handler
  (\<^const>\<open>Inr\<close>) or raises the \<open>ValueError\<close> of the last branch (\<^const>\<open>Inl\<close>, with
  \<open>str(e)\<close>); the \<open>except\<close> clause turns the latter into a FAILED output.
\<close>

definition route_model ::
  "python \<Rightarrow> 'b generate option \<Rightarrow> 'b world \<Rightarrow> StepInput \<Rightarrow> string \<Rightarrow> (string + string) \<times> 'b world" where
  "route_model py hf_manager w step_input enriched_prompt =
     (if model_type step_input = CODE_LLAMA then
        (let (result, w) = execute_code_llama hf_manager w enriched_prompt (parameters step_input)
         in (Inr result, w))
      else if model_type step_input = CODE_GEMMA then
        (let (result, w) = execute_code_gemma hf_manager w enriched_prompt (parameters step_input)
         in (Inr result, w))
      else if model_type step_input = T5_GEMMA then
        (let (result, w) = execute_t5_gemma hf_manager w enriched_prompt (parameters step_input)
         in (Inr result, w))
      else (Inl (''Unknown model type: '' @ format_model_type py (model_type step_input)), w))"

definition execute_step ::
  "python \<Rightarrow> 'b generate option \<Rightarrow> 'b world \<Rightarrow> StepInput \<Rightarrow> pyval dict \<Rightarrow> StepOutput \<times> 'b world" where
  "execute_step py hf_manager w step_input execution_context =
     (let w = w\<lparr>call_log := call_log w @ [StepCall (step_name step_input)]\<rparr>;
          (start_time, w) = now w;
          enriched_prompt = inject_context py (prompt step_input) execution_context;
          (routed, w) = route_model py hf_manager w step_input enriched_prompt
      in case routed of
           Inr result \<Rightarrow>
             (let artifacts = extract_artifacts (step_name step_input) result;
                  (end_time, w) = now w
              in (\<lparr>so_step_name = step_name step_input, so_status = SUCCESS,
                   so_result = Some result, so_error = None, so_artifacts = artifacts,
                   so_execution_time = end_time - start_time\<rparr>, w))
         | Inl e \<Rightarrow>
             (let (end_time, w) = now w
              in (\<lparr>so_step_name = step_name step_input, so_status = FAILED,
                   so_result = None, so_error = Some e, so_artifacts = [],
                   so_execution_time = end_time - start_time\<rparr>, w)))"

subsection \<open>The assembler\<close>

text \<open>
  The body of the loop of \<open>_build_assembler_prompt\<close>; \<open>if step_output.result\<close> holds
  for a string that is not empty.
\<close>

definition step_prompt_lines :: "nat \<Rightarrow> StepOutput \<Rightarrow> string list \<Rightarrow> string list" where
  "step_prompt_lines i step_output prompt_lines =
     (let prompt_lines = prompt_lines @
            [''\<newline>### Step '' @ str_nat i @ '': '' @ so_step_name step_output];
          prompt_lines = prompt_lines @ [''Status: '' @ status_value (so_status step_output)];
          prompt_lines =
            (case so_result step_output of
               Some r \<Rightarrow> if r \<noteq> [] then prompt_lines @ [''Result:'', take 500 r] else prompt_lines
             | None \<Rightarrow> prompt_lines);
          prompt_lines =
            (if so_artifacts step_output \<noteq> [] then
               foldl (\<lambda>ls artifact. ls @ [''- '' @ a_name artifact])
                 (prompt_lines @ [''Artifacts:'']) (so_artifacts step_output)
             else prompt_lines)
      in prompt_lines)"

fun all_step_prompt_lines :: "nat \<Rightarrow> StepOutput list \<Rightarrow> string list \<Rightarrow> string list" where
  "all_step_prompt_lines i [] prompt_lines = prompt_lines"
| "all_step_prompt_lines i (step_output # rest) prompt_lines =
     all_step_prompt_lines (Suc i) rest (step_prompt_lines i step_output prompt_lines)"

definition build_assembler_prompt :: "StepOutput list \<Rightarrow> string" where
  "build_assembler_prompt step_outputs =
     (let prompt_lines =
            [''# Assembly Task'',
             ''You are an expert code assembler. Your task is to:'',
             ''1. Review the following step outputs'',
             ''2. Combine them into a cohesive, production-ready codebase'',
             ''3. Follow the 'Lego pattern': each piece should fit perfectly'',
             ''4. Clean up, optimize, and polish the code'',
             ''5. Add proper comments and documentation'',
             '''',
             ''## Step Outputs:''];
          prompt_lines = all_step_prompt_lines 1 step_outputs prompt_lines;
          prompt_lines = prompt_lines @
            ['''',
             ''## Final Assembly Instructions:'',
             ''1. Create a cohesive structure'',
             ''2. Remove duplication'',
             ''3. Ensure type safety (TypeScript/Python)'',
             ''4. Add proper error handling'',
             ''5. Include comprehensive documentation'',
             '''',
             ''Provide the final, production-ready code in code blocks.'']
      in py_join ''\<newline>'' prompt_lines)"

definition run_assembler ::
  "'b generate option \<Rightarrow> 'b world \<Rightarrow> uuid \<Rightarrow> uuid \<Rightarrow> pyval dict \<Rightarrow> StepOutput list \<Rightarrow>
     assembler_output \<times> 'b world" where
  "run_assembler hf_manager w rid pid execution_context step_outputs =
     (let w = w\<lparr>call_log := call_log w @ [AssemblerCall]\<rparr>;
          assembler_prompt = build_assembler_prompt step_outputs;
          (generated, w) =
            (case hf_manager of
               Some generate \<Rightarrow>
                 (case generate (hf_state w)
                         \<lparr>model_name = ''CodeLlama-7b'', gen_prompt = assembler_prompt,
                          max_tokens = PyObj ''2048'', temperature = PyObj ''0.3''\<rparr> of
                    (r, b) \<Rightarrow> (r, w\<lparr>hf_state := b\<rparr>))
             | None \<Rightarrow> (Inr (''[Assembled Output]\<newline>\<newline>'' @ assembler_prompt), w))
      in case generated of
           Inr assembled_code \<Rightarrow>
             (\<lparr>asm_assembled_code = assembled_code,
               asm_artifacts = extract_artifacts ''assembler'' assembled_code,
               asm_error = None\<rparr>, w)
         | Inl e \<Rightarrow>
             (\<lparr>asm_assembled_code = '''', asm_artifacts = [], asm_error = Some e\<rparr>, w))"

subsection \<open>Persistence\<close>

text \<open>
  \<open>_save_artifact\<close> and \<open>_update_run\<close> catch and print whatever the session raises;
  with the session of this model they run to their end.
\<close>

definition save_artifact :: "'b world \<Rightarrow> uuid \<Rightarrow> uuid \<Rightarrow> artifact \<Rightarrow> 'b world" where
  "save_artifact w rid pid artifact =
     (let (new_id, w) = uuid4 w;
          (created, w) = now w;
          db_artifact =
            \<lparr>ga_id = new_id, ga_project_id = Some pid, ga_run_id = Some rid,
             ga_name = a_name artifact,
             ga_path = Some (''/artifacts/'' @ a_name artifact),
             ga_content = Some (a_content artifact),
             ga_metadata = Some [(''type'', PyStr (a_type artifact)),
                                 (''source'', PyStr ''orchestrator'')],
             ga_created_at = created\<rparr>
      in w\<lparr>db := (db w)\<lparr>artifacts := artifacts (db w) @ [db_artifact]\<rparr>\<rparr>)"

definition update_run :: "'b world \<Rightarrow> uuid \<Rightarrow> string \<Rightarrow> 'b world" where
  "update_run w rid status =
     (case find (\<lambda>r. run_id r = rid) (runs (db w)) of
        None \<Rightarrow> w
      | Some run \<Rightarrow>
          (if status \<in> {''SUCCESS'', ''FAILED''} then
             (let (t, w) = now w
              in w\<lparr>db := (db w)\<lparr>runs := update_first (\<lambda>r. run_id r = rid)
                     (\<lambda>r. r\<lparr>run_status := Some status, run_finished_at := Some t\<rparr>)
                     (runs (db w))\<rparr>\<rparr>)
           else w\<lparr>db := (db w)\<lparr>runs := update_first (\<lambda>r. run_id r = rid)
                     (\<lambda>r. r\<lparr>run_status := Some status\<rparr>) (runs (db w))\<rparr>\<rparr>))"

subsection \<open>The run controller\<close>

text \<open>
  \<open>self.step_history[run_id].append(step_output)\<close>; \<open>execute_pipeline\<close> stores the
  empty list under the key before the loop starts.
\<close>

definition history_append :: "'b world \<Rightarrow> uuid \<Rightarrow> StepOutput \<Rightarrow> 'b world" where
  "history_append w rid step_output =
     w\<lparr>step_history := (step_history w)
          (rid \<mapsto> (case step_history w rid of Some h \<Rightarrow> h | None \<Rightarrow> []) @ [step_output])\<rparr>"

text \<open>The value stored for \<open>step_output.result\<close>, which is a string or \<open>None\<close>.\<close>

fun result_value :: "string option \<Rightarrow> pyval" where
  "result_value (Some r) = PyStr r"
| "result_value None = PyObj ''None''"

text \<open>
  The loop \<open>for i, step_input in enumerate(pipeline.steps)\<close>, with its \<open>break\<close>: the
  state is the world, the results dictionary and the execution context.
\<close>

fun run_steps ::
  "python \<Rightarrow> 'b generate option \<Rightarrow> uuid \<Rightarrow> uuid \<Rightarrow> nat \<Rightarrow> StepInput list \<Rightarrow>
     'b world \<times> results \<times> pyval dict \<Rightarrow> 'b world \<times> results \<times> pyval dict" where
  "run_steps py hf_manager rid pid i [] state = state"
| "run_steps py hf_manager rid pid i (step_input # rest) (w, res, execution_context) =
     (let (step_output, w) = execute_step py hf_manager w step_input execution_context;
          w = history_append w rid step_output;
          res = res\<lparr>r_steps := r_steps res @ [step_output]\<rparr>
      in if so_status step_output = FAILED then
           (let res = res\<lparr>r_status := ''FAILED'',
                           r_error := Some (''Pipeline stopped at step '' @ [CHR 0x27]
                              @ step_name step_input @ [CHR 0x27] @ '': ''
                              @ (case so_error step_output of Some e \<Rightarrow> e
                                 | None \<Rightarrow> ''None''))\<rparr>;
                w = update_run w rid ''FAILED''
            in (w, res, execution_context))
         else
           (let execution_context = dict_set execution_context
                    (''step_'' @ str_nat i @ ''_output'') (result_value (so_result step_output));
                execution_context = dict_set execution_context
                    (''step_'' @ str_nat i @ ''_artifacts'') (PyArtifacts (so_artifacts step_output));
                w = foldl (\<lambda>w artifact. save_artifact w rid pid artifact) w
                      (so_artifacts step_output)
            in run_steps py hf_manager rid pid (Suc i) rest (w, res, execution_context)))"

text \<open>
  \<open>execute_pipeline\<close>. Nothing in the \<open>try\<close> body raises in this model (the step
  executor, the assembler and the persistence helpers catch their own exceptions), so
  the outer \<open>except\<close> clause has no branch here.
\<close>

definition execute_pipeline ::
  "python \<Rightarrow> 'b generate option \<Rightarrow> 'b world \<Rightarrow> OrchestrationPipeline \<Rightarrow> uuid \<Rightarrow>
     results \<times> 'b world" where
  "execute_pipeline py hf_manager w pipeline rid =
     (let w = w\<lparr>step_history := (step_history w)(rid \<mapsto> [])\<rparr>;
          (started, w) = now w;
          res = \<lparr>r_run_id = rid, r_project_id = project_id pipeline, r_status = ''RUNNING'',
                 r_steps = [], r_final_artifacts = [], r_started_at = started,
                 r_error = None, r_assembled_code = None, r_finished_at = None\<rparr>;
          w = update_run w rid ''RUNNING'';
          execution_context = global_context pipeline;
          (w, res, execution_context) =
            run_steps py hf_manager rid (project_id pipeline) 0 (steps pipeline)
              (w, res, execution_context);
          (w, res) =
            (if r_status res = ''RUNNING'' then
               (let (assembled, w) = run_assembler hf_manager w rid (project_id pipeline)
                        execution_context
                        (case step_history w rid of Some h \<Rightarrow> h | None \<Rightarrow> []);
                    res = res\<lparr>r_final_artifacts := asm_artifacts assembled,
                               r_assembled_code := Some (asm_assembled_code assembled),
                               r_status := ''SUCCESS''\<rparr>;
                    w = update_run w rid ''SUCCESS''
                in (w, res))
             else (w, res));
          (finished, w) = now w
      in (res\<lparr>r_finished_at := Some finished\<rparr>, w))"

subsection \<open>Run summaries\<close>

record run_summary =
  s_run_id :: uuid
  total_steps :: nat
  successful_steps :: nat
  failed_steps :: nat
  total_execution_time :: nat
  s_steps :: "StepOutput list"

definition get_step_history :: "'b world \<Rightarrow> uuid \<Rightarrow> StepOutput list" where
  "get_step_history w rid = (case step_history w rid of Some h \<Rightarrow> h | None \<Rightarrow> [])"

definition get_run_summary :: "'b world \<Rightarrow> uuid \<Rightarrow> run_summary" where
  "get_run_summary w rid =
     (let history = get_step_history w rid;
          successful = length (filter (\<lambda>step. so_status step = SUCCESS) history);
          failed = length (filter (\<lambda>step. so_status step = FAILED) history);
          total_time = sum_list (map so_execution_time history)
      in \<lparr>s_run_id = rid, total_steps = length history, successful_steps = successful,
          failed_steps = failed, total_execution_time = total_time, s_steps = history\<rparr>)"

text \<open>A service as \<open>__init__\<close> leaves it: no history.\<close>

definition new_service :: "database \<Rightarrow> 'b \<Rightarrow> nat \<Rightarrow> nat \<Rightarrow> 'b world" where
  "new_service d b t u =
     \<lparr>db = d, hf_state = b, step_history = Map.empty, clock = t, uuid_supply = u,
      call_log = []\<rparr>"

text \<open>The states of a service: a new one, and what a pipeline run leaves.\<close>

inductive reachable :: "python \<Rightarrow> 'b generate option \<Rightarrow> 'b world \<Rightarrow> bool"
  for py :: python and hf_manager :: "'b generate option" where
  init: "reachable py hf_manager (new_service d b t u)"
| run: "reachable py hf_manager w \<Longrightarrow>
        reachable py hf_manager (snd (execute_pipeline py hf_manager w pipeline rid))"

section \<open>The project service\<close>

text \<open>
  Its methods take the tables and return them; \<open>t\<close> is what \<open>datetime.now\<close> reads
  during the call. A method either returns (\<^const>\<open>Inr\<close>) or raises
  (\<^const>\<open>Inl\<close>).
\<close>

datatype py_error = AttributeError string

definition get_project :: "database \<Rightarrow> uuid \<Rightarrow> Project option" where
  "get_project d pid = find (\<lambda>p. p_id p = pid) (projects d)"

definition get_run :: "database \<Rightarrow> uuid \<Rightarrow> OrchestrationRun option" where
  "get_run d rid = find (\<lambda>r. run_id r = rid) (runs d)"

definition list_context_by_project :: "database \<Rightarrow> uuid \<Rightarrow> nat \<Rightarrow> nat \<Rightarrow> Context list" where
  "list_context_by_project d pid skip limit =
     take limit (drop skip (filter (\<lambda>c. c_project_id c = pid) (contexts d)))"

definition list_runs_by_project ::
  "database \<Rightarrow> uuid \<Rightarrow> nat \<Rightarrow> nat \<Rightarrow> OrchestrationRun list" where
  "list_runs_by_project d pid skip limit =
     take limit (drop skip (filter (\<lambda>r. run_project_id r = Some pid) (runs d)))"

definition list_artifacts_by_project ::
  "database \<Rightarrow> uuid \<Rightarrow> nat \<Rightarrow> nat \<Rightarrow> GeneratedArtifact list" where
  "list_artifacts_by_project d pid skip limit =
     take limit (drop skip (filter (\<lambda>a. ga_project_id a = Some pid) (artifacts d)))"

definition list_artifacts_by_run ::
  "database \<Rightarrow> uuid \<Rightarrow> nat \<Rightarrow> nat \<Rightarrow> GeneratedArtifact list" where
  "list_artifacts_by_run d rid skip limit =
     take limit (drop skip (filter (\<lambda>a. ga_run_id a = Some rid) (artifacts d)))"

definition create_run ::
  "database \<Rightarrow> uuid \<Rightarrow> nat \<Rightarrow> uuid \<Rightarrow> string \<Rightarrow> string dict option \<Rightarrow>
     OrchestrationRun \<times> database" where
  "create_run d new_id t pid status run_steps_map =
     (let run = \<lparr>run_id = new_id, run_project_id = Some pid, run_status = Some status,
                 run_steps = run_steps_map,
                 run_started_at = (if status = ''RUNNING'' then Some t else None),
                 run_finished_at = None\<rparr>
      in (run, d\<lparr>runs := runs d @ [run]\<rparr>))"


text \<open>
  \<open>session.exec(select(T).where(p))\<close> returns the \<open>ScalarResult\<close> of the statement.
  That class has \<open>first\<close>, \<open>all\<close>, \<open>one\<close> and their kin and no attribute \<open>delete\<close>
  (a bulk delete with \<open>synchronize_session\<close> is a method of \<open>session.query(T)\<close>), so
  \<open>.delete(synchronize_session=False)\<close> on it raises \<open>AttributeError\<close> and removes
  nothing.
\<close>

definition ScalarResult_delete :: "'row list \<Rightarrow> py_error + unit" where
  "ScalarResult_delete rows = Inl (AttributeError ''delete'')"

definition delete_project :: "database \<Rightarrow> uuid \<Rightarrow> (py_error + bool) \<times> database" where
  "delete_project d pid =
     (case get_project d pid of
        None \<Rightarrow> (Inr False, d)
      | Some project \<Rightarrow>
          (case ScalarResult_delete (filter (\<lambda>c. c_project_id c = pid) (contexts d)) of
             Inl e \<Rightarrow> (Inl e, d)
           | Inr _ \<Rightarrow>
          (case ScalarResult_delete (filter (\<lambda>r. run_project_id r = Some pid) (runs d)) of
             Inl e \<Rightarrow> (Inl e, d)
           | Inr _ \<Rightarrow>
          (case ScalarResult_delete (filter (\<lambda>a. ga_project_id a = Some pid) (artifacts d)) of
             Inl e \<Rightarrow> (Inl e, d)
           | Inr _ \<Rightarrow> (Inr True, d\<lparr>projects := remove1 project (projects d)\<rparr>)))))"

definition delete_run :: "database \<Rightarrow> uuid \<Rightarrow> (py_error + bool) \<times> database" where
  "delete_run d rid =
     (case get_run d rid of
        None \<Rightarrow> (Inr False, d)
      | Some run \<Rightarrow>
          (case ScalarResult_delete (filter (\<lambda>a. ga_run_id a = Some rid) (artifacts d)) of
             Inl e \<Rightarrow> (Inl e, d)
           | Inr _ \<Rightarrow> (Inr True, d\<lparr>runs := remove1 run (runs d)\<rparr>)))"

section \<open>Notions of the specification\<close>

text \<open>
  The definitions of this section follow the words of the specification, not the code:
  the theorems below compare the code with them.
\<close>

subsection \<open>Context blocks\<close>

text \<open>
  The fixed header, a value cut to 200 characters, the line \<open># key: value\<close> of one
  entry, and the lines of a text (\<open>s.split("\n")\<close>).
\<close>

definition context_header :: string where
  "context_header = ''\<newline>\<newline>## Available Context:\<newline>''"

definition truncated_value :: "python \<Rightarrow> pyval \<Rightarrow> string" where
  "truncated_value py v = take 200 (py_str py v)"

definition context_line :: "python \<Rightarrow> string \<times> pyval \<Rightarrow> string" where
  "context_line py kv = ''# '' @ fst kv @ '': '' @ truncated_value py (snd kv)"

fun split_lines :: "string \<Rightarrow> string list" where
  "split_lines [] = [[]]"
| "split_lines (c # cs) =
     (if c = CHR 0x0A then [] # split_lines cs
      else (case split_lines cs of [] \<Rightarrow> [[c]] | l # ls \<Rightarrow> (c # l) # ls))"

subsection \<open>Fenced blocks by kind\<close>

text \<open>
  The recognised kinds with their fence tag, the word and the extension of their artifact
  names; the artifacts of one kind are one per block, in the order of the text, numbered
  from 0 and named \<open>label_word_index.ext\<close>, with the stripped interior as content.
\<close>

datatype kind = JSX | TSX | CSS | PY

fun tag :: "kind \<Rightarrow> string" where
  "tag JSX = ''jsx''"
| "tag TSX = ''tsx''"
| "tag CSS = ''css''"
| "tag PY = ''python''"

fun kindword :: "kind \<Rightarrow> string" where
  "kindword JSX = ''component''"
| "kindword TSX = ''component''"
| "kindword CSS = ''styles''"
| "kindword PY = ''script''"

fun ext :: "kind \<Rightarrow> string" where
  "ext JSX = ''jsx''"
| "ext TSX = ''tsx''"
| "ext CSS = ''css''"
| "ext PY = ''py''"

definition opener :: "kind \<Rightarrow> string" where
  "opener k = fence @ tag k"

definition kind_artifacts :: "string \<Rightarrow> kind \<Rightarrow> string \<Rightarrow> artifact list" where
  "kind_artifacts label k text =
     map (\<lambda>(i, body). \<lparr>a_type = tag k,
            a_name = label @ ''_'' @ kindword k @ ''_'' @ str_nat i @ ''.'' @ ext k,
            a_content = py_strip body\<rparr>)
       (enumerate 0 (findall (opener k) text))"

subsection \<open>Handled model types and the steps a run attempts\<close>

text \<open>
  The closed set of handlers, the status the executor gives a step, and the steps a run
  reaches: those before the first step that fails, and that step.
\<close>

definition handled :: "string \<Rightarrow> bool" where
  "handled m \<longleftrightarrow> m = CODE_LLAMA \<or> m = CODE_GEMMA \<or> m = T5_GEMMA"

definition expected_status :: "StepInput \<Rightarrow> StepStatus" where
  "expected_status s = (if handled (model_type s) then SUCCESS else FAILED)"

fun attempted :: "StepInput list \<Rightarrow> StepInput list" where
  "attempted [] = []"
| "attempted (s # ss) = (if handled (model_type s) then s # attempted ss else [s])"

definition all_handled :: "StepInput list \<Rightarrow> bool" where
  "all_handled ss \<longleftrightarrow> list_all (\<lambda>s. handled (model_type s)) ss"

subsection \<open>Backend requests and the placeholder\<close>



definition placeholder :: "StepInput \<Rightarrow> string \<Rightarrow> string" where
  "placeholder s enriched =
     ''['' @ model_type s @ ''] Placeholder response to: '' @ take 100 enriched @ ''...''"


subsection \<open>Run records and histories\<close>


definition history_ok :: "'b world \<Rightarrow> bool" where
  "history_ok w \<longleftrightarrow>
     (\<forall>rid h. step_history w rid = Some h \<longrightarrow>
        (\<forall>out\<in>set h. so_status out = SUCCESS \<or> so_status out = FAILED))"

section \<open>Concrete inputs\<close>

text \<open>
  A store with one project, one context, one pending run and one artifact; a service on
  it with no backend state; a step of a handled model and one of an unknown model; two
  backends that raise.
\<close>

definition py0 :: python where
  "py0 = \<lparr>repr_artifacts = (\<lambda>as. ''[...]''), format_model_type = (\<lambda>m. m)\<rparr>"

definition project1 :: Project where
  "project1 = \<lparr>p_id = 1, p_name = ''demo'', p_description = None, p_metadata = None,
               p_owner_id = None, p_created_at = 0, p_updated_at = None\<rparr>"

definition context1 :: Context where
  "context1 = \<lparr>c_id = 2, c_project_id = 1, c_key = ''framework'',
               c_value = Some (PyStr ''react''), c_updated_at = None\<rparr>"

definition run7 :: OrchestrationRun where
  "run7 = \<lparr>run_id = 7, run_project_id = Some 1, run_status = Some ''PENDING'',
           run_steps = None, run_started_at = None, run_finished_at = None\<rparr>"

definition artifact1 :: GeneratedArtifact where
  "artifact1 = \<lparr>ga_id = 3, ga_project_id = Some 1, ga_run_id = Some 7, ga_name = ''x.jsx'',
                ga_path = None, ga_content = None, ga_metadata = None, ga_created_at = 0\<rparr>"

definition db0 :: database where
  "db0 = \<lparr>projects = [project1], contexts = [context1], runs = [run7], artifacts = [artifact1]\<rparr>"

definition w0 :: "unit world" where
  "w0 = new_service db0 () 0 100"

definition good_step :: StepInput where
  "good_step = \<lparr>step_name = ''a'', model_type = CODE_LLAMA,
                prompt = ''Generate a button component...'', step_context = [], parameters = []\<rparr>"

definition bad_step :: StepInput where
  "bad_step = \<lparr>step_name = ''bad'', model_type = ''NotARealModel'',
               prompt = ''...'', step_context = [], parameters = []\<rparr>"


definition pipeline_bad :: OrchestrationPipeline where
  "pipeline_bad = \<lparr>project_id = 1, pipeline_name = ''demo'',
                   steps = [good_step, bad_step, good_step],
                   global_context = [], metadata = []\<rparr>"



definition two_blocks :: string where
  "two_blocks = ''```jsx\<newline>export default function App(){}\<newline>```\<newline>```css\<newline>.app{color:red;}\<newline>```''"


section \<open>The context injector is a pure serialisation\<close>

lemma split_lines_single: "CHR 0x0A \<notin> set l \<Longrightarrow> split_lines l = [l]"
  by (induction l) auto

lemma split_lines_append:
  "CHR 0x0A \<notin> set l \<Longrightarrow> split_lines (l @ CHR 0x0A # rest) = l # split_lines rest"
  by (induction l) auto

lemma split_lines_join_Cons:
  "\<forall>x\<in>set (l # ls). CHR 0x0A \<notin> set x \<Longrightarrow> split_lines (py_join ''\<newline>'' (l # ls)) = l # ls"
proof (induction ls arbitrary: l)
  case Nil
  then show ?case by (simp add: split_lines_single)
next
  case (Cons y ys)
  then have "split_lines (py_join ''\<newline>'' (y # ys)) = y # ys" by simp
  moreover have "CHR 0x0A \<notin> set l" using Cons.prems by simp
  ultimately show ?case by (simp add: split_lines_append)
qed

lemma split_lines_join:
  "ls \<noteq> [] \<Longrightarrow> \<forall>l\<in>set ls. CHR 0x0A \<notin> set l \<Longrightarrow> split_lines (py_join ''\<newline>'' ls) = ls"
  using split_lines_join_Cons by (cases ls) auto

lemma inject_context_lines:
  "inject_context py p ctx = p @ context_header @ py_join ''\<newline>'' (map (context_line py) ctx)"
proof -
  have "(\<lambda>(k, v). ''# '' @ k @ '': '' @ take 200 (py_str py v)) = context_line py"
    by (auto simp: context_line_def truncated_value_def fun_eq_iff)
  then show ?thesis by (simp add: inject_context_def context_header_def)
qed

text \<open>
  Claim C9. The context injector takes the prompt and the context and nothing else, and
  its result is the prompt, the fixed header, and one line \<open># key: value\<close> per entry
  in the order of the dictionary, joined by newlines; each value is the text \<open>str\<close>
  gives, cut to its first 200 characters. Where no key and no rendered value holds a
  newline, splitting what follows the header at the newlines gives back exactly these lines.
  As a function of its two arguments it returns the same text whenever it is called on them.
\<close>

theorem inject_context_contract:
  "inject_context py p ctx = p @ context_header @ py_join ''\<newline>'' (map (context_line py) ctx)
   \<and> (\<forall>kv\<in>set ctx. length (truncated_value py (snd kv)) \<le> 200
          \<and> prefix (truncated_value py (snd kv)) (py_str py (snd kv)))
   \<and> (ctx \<noteq> [] \<and> (\<forall>kv\<in>set ctx. CHR 0x0A \<notin> set (fst kv) \<and> CHR 0x0A \<notin> set (py_str py (snd kv)))
        \<longrightarrow> split_lines (drop (length p + length context_header) (inject_context py p ctx))
              = map (context_line py) ctx)"
proof (intro conjI impI ballI)
  show "inject_context py p ctx = p @ context_header @ py_join ''\<newline>'' (map (context_line py) ctx)"
    by (rule inject_context_lines)
next
  fix kv
  show "length (truncated_value py (snd kv)) \<le> 200" by (simp add: truncated_value_def)
  show "prefix (truncated_value py (snd kv)) (py_str py (snd kv))"
    by (simp add: truncated_value_def take_is_prefix)
next
  assume a: "ctx \<noteq> [] \<and> (\<forall>kv\<in>set ctx. CHR 0x0A \<notin> set (fst kv) \<and> CHR 0x0A \<notin> set (py_str py (snd kv)))"
  have "\<forall>l\<in>set (map (context_line py) ctx). CHR 0x0A \<notin> set l"
  proof
    fix l assume "l \<in> set (map (context_line py) ctx)"
    then obtain kv where kv: "kv \<in> set ctx" and l: "l = context_line py kv" by auto
    from a kv have "CHR 0x0A \<notin> set (fst kv)" and "CHR 0x0A \<notin> set (py_str py (snd kv))" by auto
    then have "CHR 0x0A \<notin> set (truncated_value py (snd kv))"
      unfolding truncated_value_def using in_set_takeD by fastforce
    with \<open>CHR 0x0A \<notin> set (fst kv)\<close> show "CHR 0x0A \<notin> set l"
      by (simp add: l context_line_def)
  qed
  moreover from a have "map (context_line py) ctx \<noteq> []" by simp
  ultimately have "split_lines (py_join ''\<newline>'' (map (context_line py) ctx)) = map (context_line py) ctx"
    using split_lines_join by blast
  then show "split_lines (drop (length p + length context_header) (inject_context py p ctx))
              = map (context_line py) ctx"
    by (simp add: inject_context_lines)
qed

theorem inject_context_contract_witness:
  "inject_context py0 ''Generate code'' [(''framework'', PyStr ''React''), (''version'', PyObj ''18.0'')]
     = ''Generate code\<newline>\<newline>## Available Context:\<newline># framework: React\<newline># version: 18.0''
   \<and> split_lines (drop (length ''Generate code'' + length context_header)
        (inject_context py0 ''Generate code'' [(''framework'', PyStr ''React''), (''version'', PyObj ''18.0'')]))
     = [''# framework: React'', ''# version: 18.0'']"
  using inject_context_contract [of py0 "''Generate code''" "[(''framework'', PyStr ''React''), (''version'', PyObj ''18.0'')]"]
  by (simp add: context_header_def context_line_def truncated_value_def)


section \<open>Artifact extraction\<close>

lemma append_blocks_enumerate:
  "append_blocks mk i bs acc = acc @ map (\<lambda>(j, b). mk j b) (enumerate i bs)"
  by (induction bs arbitrary: i acc) simp_all

lemma prefix_short:
  "prefix xs (ys @ zs) \<Longrightarrow> length xs \<le> length ys \<Longrightarrow> prefix xs ys"
  by (auto simp: prefix_append)

lemma lazy_group_first:
  "(\<forall>i<length body. \<not> prefix fence (drop i (body @ fence))) \<Longrightarrow>
   lazy_group (body @ fence @ rest) = Some (body, rest)"
proof (induction body)
  case Nil
  then show ?case by (simp add: fence_def)
next
  case (Cons c bs)
  from Cons.prems have "\<not> prefix fence ((c # bs) @ fence)" by force
  then have no: "\<not> prefix fence (c # bs @ fence @ rest)"
    using prefix_short [of fence "(c # bs) @ fence" rest] by (auto simp: fence_def)
  have "\<forall>i<length bs. \<not> prefix fence (drop i (bs @ fence))"
    using Cons.prems by force
  then have "lazy_group (bs @ fence @ rest) = Some (bs, rest)" by (rule Cons.IH)
  with no show ?case by simp
qed

lemma findall_first:
  assumes "op \<noteq> []"
  shows "(\<forall>i<length gap. \<not> prefix op (drop i (gap @ op))) \<Longrightarrow>
   (\<forall>i<length body. \<not> prefix fence (drop i (body @ fence))) \<Longrightarrow>
   findall op (gap @ op @ body @ fence @ rest) = body # findall op rest"
proof (induction gap)
  case Nil
  obtain c cs where op: "op = c # cs" using assms by (cases op) auto
  have "findall op (op @ body @ fence @ rest) =
     (case lazy_group (drop (length op) (op @ body @ fence @ rest)) of
           Some (g, r) \<Rightarrow> g # findall op r
         | None \<Rightarrow> findall op (cs @ body @ fence @ rest))"
    using findall.simps(2) [of op c "cs @ body @ fence @ rest"] by (simp add: op)
  then show ?case using lazy_group_first [OF Nil.prems(2), of rest] by simp
next
  case (Cons c g)
  from Cons.prems(1) have "\<not> prefix op ((c # g) @ op)" by force
  then have no: "\<not> prefix op (c # g @ op @ body @ fence @ rest)"
    using prefix_short [of op "(c # g) @ op" "body @ fence @ rest"] by auto
  have "\<forall>i<length g. \<not> prefix op (drop i (g @ op))"
    using Cons.prems(1) by force
  then have "findall op (g @ op @ body @ fence @ rest) = body # findall op rest"
    using Cons.prems(2) by (rule Cons.IH)
  with no show ?case by (simp add: findall.simps)
qed

lemma lazy_group_None_iff:
  "lazy_group t = None \<longleftrightarrow> \<not> (\<exists>b r. t = b @ fence @ r)"
proof (induction t)
  case Nil
  then show ?case by (simp add: fence_def)
next
  case (Cons c cs)
  have "(\<exists>b r. c # cs = b @ fence @ r) \<longleftrightarrow> prefix fence (c # cs) \<or> (\<exists>b r. cs = b @ fence @ r)"
  proof
    assume "\<exists>b r. c # cs = b @ fence @ r"
    then obtain b r where e: "c # cs = b @ fence @ r" by blast
    show "prefix fence (c # cs) \<or> (\<exists>b r. cs = b @ fence @ r)"
    proof (cases b)
      case Nil
      with e show ?thesis by (auto simp: prefix_def)
    next
      case (Cons x b')
      with e show ?thesis by auto
    qed
  next
    assume "prefix fence (c # cs) \<or> (\<exists>b r. cs = b @ fence @ r)"
    then show "\<exists>b r. c # cs = b @ fence @ r"
    proof
      assume "prefix fence (c # cs)"
      then obtain r where "c # cs = fence @ r" by (auto simp: prefix_def)
      then have "c # cs = [] @ fence @ r" by simp
      then show ?thesis by blast
    next
      assume "\<exists>b r. cs = b @ fence @ r"
      then obtain b r where "cs = b @ fence @ r" by blast
      then have "c # cs = (c # b) @ fence @ r" by simp
      then show ?thesis by blast
    qed
  qed
  with Cons.IH show ?case by (auto split: option.splits)
qed

lemma findall_Nil_iff:
  "findall op t = [] \<longleftrightarrow> \<not> (\<exists>g b r. t = g @ op @ b @ fence @ r)"
proof (induction op t rule: findall.induct)
  case (1 op)
  then show ?case by (simp add: findall.simps fence_def)
next
  case (2 op c cs)
  have step: "(\<exists>g b r. c # cs = g @ op @ b @ fence @ r) \<longleftrightarrow>
      (\<exists>b r. c # cs = op @ b @ fence @ r) \<or> (\<exists>g b r. cs = g @ op @ b @ fence @ r)"
  proof
    assume "\<exists>g b r. c # cs = g @ op @ b @ fence @ r"
    then obtain g b r where e: "c # cs = g @ op @ b @ fence @ r" by blast
    show "(\<exists>b r. c # cs = op @ b @ fence @ r) \<or> (\<exists>g b r. cs = g @ op @ b @ fence @ r)"
    proof (cases g)
      case Nil
      with e show ?thesis by auto
    next
      case (Cons x g')
      with e have "cs = g' @ op @ b @ fence @ r" by simp
      then show ?thesis by blast
    qed
  next
    assume "(\<exists>b r. c # cs = op @ b @ fence @ r) \<or> (\<exists>g b r. cs = g @ op @ b @ fence @ r)"
    then show "\<exists>g b r. c # cs = g @ op @ b @ fence @ r"
    proof
      assume "\<exists>b r. c # cs = op @ b @ fence @ r"
      then obtain b r where "c # cs = [] @ op @ b @ fence @ r" by auto
      then show ?thesis by blast
    next
      assume "\<exists>g b r. cs = g @ op @ b @ fence @ r"
      then obtain g b r where "cs = g @ op @ b @ fence @ r" by blast
      then have "c # cs = (c # g) @ op @ b @ fence @ r" by simp
      then show ?thesis by blast
    qed
  qed
  show ?case
  proof (cases "prefix op (c # cs)")
    case False
    then have "\<not> (\<exists>b r. c # cs = op @ b @ fence @ r)" by (auto simp: prefix_def)
    with False 2(3) [OF False] step show ?thesis by (simp add: findall.simps)
  next
    case True
    then obtain t' where t': "c # cs = op @ t'" by (auto simp: prefix_def)
    then have d: "drop (length op) (c # cs) = t'" by simp
    have here: "(\<exists>b r. c # cs = op @ b @ fence @ r) \<longleftrightarrow> (\<exists>b r. t' = b @ fence @ r)"
      using t' by auto
    show ?thesis
    proof (cases "lazy_group (drop (length op) (c # cs))")
      case None
      then have "\<not> (\<exists>b r. t' = b @ fence @ r)" using lazy_group_None_iff [of t'] d by simp
      with here have "\<not> (\<exists>b r. c # cs = op @ b @ fence @ r)" by simp
      moreover have "findall op (c # cs) = findall op cs"
        using True None by (simp add: findall.simps)
      ultimately show ?thesis using 2(1) [OF True None] step by simp
    next
      case (Some p)
      then have "\<exists>b r. t' = b @ fence @ r" using lazy_group_None_iff [of t'] d by auto
      with here step have "\<exists>g b r. c # cs = g @ op @ b @ fence @ r" by simp
      moreover have "findall op (c # cs) \<noteq> []"
        using True Some by (cases p) (simp add: findall.simps)
      ultimately show ?thesis by simp
    qed
  qed
qed

lemma extract_artifacts_kinds:
  "extract_artifacts label text =
     kind_artifacts label JSX text @ kind_artifacts label TSX text @
     kind_artifacts label CSS text @ kind_artifacts label PY text"
  by (simp add: extract_artifacts_def kind_artifacts_def append_blocks_enumerate opener_def fence_def)

text \<open>
  Claim C3. Extraction returns the artifacts of the jsx blocks, then those of the tsx,
  css and python blocks: the list is partitioned by kind. The artifacts of a kind are
  one per block the pattern of that kind finds, in the order found and numbered from 0,
  named \<open>label_kindword_index.ext\<close> with the stripped interior as content (this is
  \<^const>\<open>kind_artifacts\<close>). The blocks a pattern finds are the fenced blocks of the
  text: the first opening fence and the interior up to the nearest closing fence give
  the first block, and the search goes on after that closing fence; a text with no
  opening fence followed by a closing fence has none. A text with no block of any
  recognised kind yields the empty list.
\<close>

theorem extract_artifacts_blocks:
  "extract_artifacts label txt =
     kind_artifacts label JSX txt @ kind_artifacts label TSX txt @
     kind_artifacts label CSS txt @ kind_artifacts label PY txt
   \<and> length (kind_artifacts label k txt) = length (findall (opener k) txt)
   \<and> ((\<forall>i<length gap. \<not> prefix (opener k) (drop i (gap @ opener k))) \<and>
       (\<forall>i<length body. \<not> prefix fence (drop i (body @ fence)))
       \<longrightarrow> findall (opener k) (gap @ opener k @ body @ fence @ rest)
             = body # findall (opener k) rest)
   \<and> (findall (opener k) txt = [] \<longleftrightarrow> \<not> (\<exists>g b r. txt = g @ opener k @ b @ fence @ r))
   \<and> ((\<forall>k'. \<not> (\<exists>g b r. txt = g @ opener k' @ b @ fence @ r))
       \<longrightarrow> extract_artifacts label txt = [])"
proof (intro conjI impI)
  show "extract_artifacts label txt =
     kind_artifacts label JSX txt @ kind_artifacts label TSX txt @
     kind_artifacts label CSS txt @ kind_artifacts label PY txt"
    by (rule extract_artifacts_kinds)
next
  show "length (kind_artifacts label k txt) = length (findall (opener k) txt)"
    by (simp add: kind_artifacts_def)
next
  assume "(\<forall>i<length gap. \<not> prefix (opener k) (drop i (gap @ opener k))) \<and>
       (\<forall>i<length body. \<not> prefix fence (drop i (body @ fence)))"
  moreover have "opener k \<noteq> []" by (simp add: opener_def fence_def)
  ultimately show "findall (opener k) (gap @ opener k @ body @ fence @ rest)
             = body # findall (opener k) rest"
    using findall_first [of "opener k" gap body rest] by blast
next
  show "findall (opener k) txt = [] \<longleftrightarrow> \<not> (\<exists>g b r. txt = g @ opener k @ b @ fence @ r)"
    by (rule findall_Nil_iff)
next
  assume "\<forall>k'. \<not> (\<exists>g b r. txt = g @ opener k' @ b @ fence @ r)"
  then have "\<forall>k'. findall (opener k') txt = []"
    using findall_Nil_iff by blast
  then show "extract_artifacts label txt = []"
    by (simp add: extract_artifacts_kinds kind_artifacts_def)
qed

lemma two_blocks_eval:
  "extract_artifacts ''x'' two_blocks =
     [\<lparr>a_type = ''jsx'', a_name = ''x_component_0.jsx'', a_content = ''export default function App(){}''\<rparr>,
      \<lparr>a_type = ''css'', a_name = ''x_styles_0.css'', a_content = ''.app{color:red;}''\<rparr>]"
  by code_simp

theorem extract_artifacts_blocks_witness:
  "extract_artifacts ''x'' two_blocks =
     [\<lparr>a_type = ''jsx'', a_name = ''x_component_0.jsx'', a_content = ''export default function App(){}''\<rparr>,
      \<lparr>a_type = ''css'', a_name = ''x_styles_0.css'', a_content = ''.app{color:red;}''\<rparr>]
   \<and> length (kind_artifacts ''x'' CSS two_blocks) = 1
   \<and> findall (opener CSS) (''a`'' @ opener CSS @ ''\<newline>B'' @ fence @ ''zz'') = [''\<newline>B'']
   \<and> extract_artifacts ''x'' ''no fences here'' = []"
proof -
  have h1: "(\<forall>i<length ''a`''. \<not> prefix (opener CSS) (drop i (''a`'' @ opener CSS))) \<and>
       (\<forall>i<length ''\<newline>B''. \<not> prefix fence (drop i (''\<newline>B'' @ fence)))"
    by (simp add: opener_def fence_def All_less_Suc)
  have h2: "findall (opener CSS) ''zz'' = []" by (simp add: findall.simps opener_def fence_def)
  have h3: "\<forall>k'. \<not> (\<exists>g b r. ''no fences here'' = g @ opener k' @ b @ fence @ r)"
  proof (intro allI notI)
    fix k' assume "\<exists>g b r. ''no fences here'' = g @ opener k' @ b @ fence @ r"
    then obtain g b r where "''no fences here'' = g @ opener k' @ b @ fence @ r" by blast
    then have "set fence \<subseteq> set ''no fences here''" by (metis set_append sup.cobounded1 sup.coboundedI2)
    then show False by (simp add: fence_def)
  qed
  have h4: "findall (opener CSS) two_blocks = [''\<newline>.app{color:red;}\<newline>'']" by code_simp
  note t = extract_artifacts_blocks [of "''x''" two_blocks CSS "''a`''" "''\<newline>B''" "''zz''"]
  note u = extract_artifacts_blocks [of "''x''" "''no fences here''" CSS "[]" "[]" "[]"]
  from t have len: "length (kind_artifacts ''x'' CSS two_blocks) = length (findall (opener CSS) two_blocks)"
    by blast
  from t h1 have rt: "findall (opener CSS) (''a`'' @ opener CSS @ ''\<newline>B'' @ fence @ ''zz'')
      = ''\<newline>B'' # findall (opener CSS) ''zz''"
    by blast
  from u h3 have e: "extract_artifacts ''x'' ''no fences here'' = []" by blast
  show ?thesis using two_blocks_eval len h4 rt h2 e by simp
qed


section \<open>The step executor\<close>

lemma route_model_unknown:
  "\<not> handled (model_type s) \<Longrightarrow>
   route_model py hf w s p = (Inl (''Unknown model type: '' @ format_model_type py (model_type s)), w)"
  by (simp add: route_model_def handled_def)

lemma execute_code_llama_frame:
  "execute_code_llama hf w p ps = (r, w') \<Longrightarrow>
   db w' = db w \<and> step_history w' = step_history w \<and> clock w' = clock w \<and>
   uuid_supply w' = uuid_supply w \<and> call_log w' = call_log w"
  by (auto simp: execute_code_llama_def Let_def split: option.splits prod.splits sum.splits)

lemma execute_code_gemma_frame:
  "execute_code_gemma hf w p ps = (r, w') \<Longrightarrow>
   db w' = db w \<and> step_history w' = step_history w \<and> clock w' = clock w \<and>
   uuid_supply w' = uuid_supply w \<and> call_log w' = call_log w"
  by (auto simp: execute_code_gemma_def Let_def split: option.splits prod.splits sum.splits)

lemma execute_t5_gemma_frame:
  "execute_t5_gemma hf w p ps = (r, w') \<Longrightarrow>
   db w' = db w \<and> step_history w' = step_history w \<and> clock w' = clock w \<and>
   uuid_supply w' = uuid_supply w \<and> call_log w' = call_log w"
  by (auto simp: execute_t5_gemma_def Let_def split: option.splits prod.splits sum.splits)

lemma route_model_frame:
  "route_model py hf w s p = (r, w') \<Longrightarrow>
   db w' = db w \<and> step_history w' = step_history w \<and> clock w' = clock w \<and>
   uuid_supply w' = uuid_supply w \<and> call_log w' = call_log w"
  unfolding route_model_def
  by (auto simp: Let_def split: if_splits prod.splits
      dest: execute_code_llama_frame execute_code_gemma_frame execute_t5_gemma_frame)

lemma route_model_handled:
  "handled (model_type s) \<Longrightarrow> \<exists>r w'. route_model py hf w s p = (Inr r, w')"
  by (auto simp: route_model_def handled_def Let_def split: prod.splits)

lemma execute_step_unknown:
  "\<not> handled (model_type s) \<Longrightarrow>
   execute_step py hf w s ctx =
     (\<lparr>so_step_name = step_name s, so_status = FAILED, so_result = None,
       so_error = Some (''Unknown model type: '' @ format_model_type py (model_type s)),
       so_artifacts = [], so_execution_time = 1\<rparr>,
      w\<lparr>call_log := call_log w @ [StepCall (step_name s)], clock := Suc (Suc (clock w))\<rparr>)"
  by (simp add: execute_step_def route_model_unknown now_def Let_def)

lemma execute_step_handled:
  assumes "handled (model_type s)"
  shows "\<exists>r w'. execute_step py hf w s ctx =
     (\<lparr>so_step_name = step_name s, so_status = SUCCESS, so_result = Some r,
       so_error = None, so_artifacts = extract_artifacts (step_name s) r,
       so_execution_time = 1\<rparr>, w')
     \<and> db w' = db w \<and> step_history w' = step_history w
     \<and> call_log w' = call_log w @ [StepCall (step_name s)]"
proof -
  let ?w1 = "w\<lparr>call_log := call_log w @ [StepCall (step_name s)], clock := Suc (clock w)\<rparr>"
  obtain r w2 where r: "route_model py hf ?w1 s (inject_context py (prompt s) ctx) = (Inr r, w2)"
    using route_model_handled [OF assms] by blast
  note f = route_model_frame [OF r]
  have "execute_step py hf w s ctx =
     (\<lparr>so_step_name = step_name s, so_status = SUCCESS, so_result = Some r,
       so_error = None, so_artifacts = extract_artifacts (step_name s) r,
       so_execution_time = 1\<rparr>, w2\<lparr>clock := Suc (clock w2)\<rparr>)"
    using r f by (simp add: execute_step_def now_def Let_def)
  then show ?thesis using f by auto
qed

lemma execute_step_status:
  "so_status (fst (execute_step py hf w s c)) = expected_status s"
proof (cases "handled (model_type s)")
  case True
  then show ?thesis using execute_step_handled [OF True, of py hf w c]
    by (auto simp: expected_status_def)
next
  case False
  then show ?thesis by (simp add: execute_step_unknown expected_status_def)
qed








section \<open>Persistence helpers and the loop\<close>

lemma find_update_first:
  "(\<And>x. P x \<Longrightarrow> P (f x)) \<Longrightarrow> find P (update_first P f xs) = map_option f (find P xs)"
  by (induction xs) auto

lemma update_run_frame:
  "step_history (update_run w rid st) = step_history w \<and>
   call_log (update_run w rid st) = call_log w \<and>
   hf_state (update_run w rid st) = hf_state w \<and>
   uuid_supply (update_run w rid st) = uuid_supply w \<and>
   projects (db (update_run w rid st)) = projects (db w) \<and>
   contexts (db (update_run w rid st)) = contexts (db w) \<and>
   artifacts (db (update_run w rid st)) = artifacts (db w)"
  by (simp add: update_run_def now_def Let_def split: option.splits)

lemma update_run_terminal:
  "get_run (db w) rid = Some r \<Longrightarrow> st = ''SUCCESS'' \<or> st = ''FAILED'' \<Longrightarrow>
   get_run (db (update_run w rid st)) rid
     = Some (r\<lparr>run_status := Some st, run_finished_at := Some (clock w)\<rparr>)"
  by (auto simp: update_run_def get_run_def now_def Let_def find_update_first)

lemma update_run_other:
  "get_run (db w) rid = Some r \<Longrightarrow> st \<noteq> ''SUCCESS'' \<Longrightarrow> st \<noteq> ''FAILED'' \<Longrightarrow>
   get_run (db (update_run w rid st)) rid = Some (r\<lparr>run_status := Some st\<rparr>)"
  by (auto simp: update_run_def get_run_def now_def Let_def find_update_first)

lemma save_artifact_frame:
  "step_history (save_artifact w rid pid a) = step_history w \<and>
   call_log (save_artifact w rid pid a) = call_log w \<and>
   hf_state (save_artifact w rid pid a) = hf_state w \<and>
   runs (db (save_artifact w rid pid a)) = runs (db w)"
  by (simp add: save_artifact_def uuid4_def now_def Let_def)

lemma save_artifacts_frame:
  "step_history (foldl (\<lambda>w a. save_artifact w rid pid a) w as) = step_history w \<and>
   call_log (foldl (\<lambda>w a. save_artifact w rid pid a) w as) = call_log w \<and>
   hf_state (foldl (\<lambda>w a. save_artifact w rid pid a) w as) = hf_state w \<and>
   runs (db (foldl (\<lambda>w a. save_artifact w rid pid a) w as)) = runs (db w)"
  by (induction as arbitrary: w) (simp_all add: save_artifact_frame)

lemma history_append_frame:
  "db (history_append w rid out) = db w \<and>
   call_log (history_append w rid out) = call_log w \<and>
   hf_state (history_append w rid out) = hf_state w \<and>
   clock (history_append w rid out) = clock w \<and>
   step_history (history_append w rid out) rid
     = Some ((case step_history w rid of Some h \<Rightarrow> h | None \<Rightarrow> []) @ [out]) \<and>
   (\<forall>rid'. rid' \<noteq> rid \<longrightarrow> step_history (history_append w rid out) rid' = step_history w rid')"
  by (simp add: history_append_def)

text \<open>One turn of the loop, for a step that fails and for one that succeeds.\<close>

lemma run_steps_unhandled:
  assumes "\<not> handled (model_type s)"
  shows "\<exists>out w1. run_steps py hf rid pid i (s # rest) (w, res, ctx) =
     (update_run (history_append w1 rid out) rid ''FAILED'',
      res\<lparr>r_steps := r_steps res @ [out], r_status := ''FAILED'',
          r_error := Some (''Pipeline stopped at step '' @ [CHR 0x27] @ step_name s
             @ [CHR 0x27] @ '': '' @ ''Unknown model type: '' @ format_model_type py (model_type s))\<rparr>,
      ctx)
    \<and> execute_step py hf w s ctx = (out, w1)
    \<and> so_status out = FAILED \<and> so_step_name out = step_name s
    \<and> so_result out = None \<and> so_artifacts out = []
    \<and> so_error out = Some (''Unknown model type: '' @ format_model_type py (model_type s))
    \<and> db w1 = db w \<and> step_history w1 = step_history w
    \<and> call_log w1 = call_log w @ [StepCall (step_name s)]"
  using execute_step_unknown [OF assms, of py hf w ctx]
  by (simp add: Let_def)

lemma run_steps_handled:
  assumes "handled (model_type s)"
  shows "\<exists>out w1. run_steps py hf rid pid i (s # rest) (w, res, ctx) =
     run_steps py hf rid pid (Suc i) rest
       (foldl (\<lambda>w a. save_artifact w rid pid a) (history_append w1 rid out) (so_artifacts out),
        res\<lparr>r_steps := r_steps res @ [out]\<rparr>,
        dict_set (dict_set ctx (''step_'' @ str_nat i @ ''_output'') (result_value (so_result out)))
          (''step_'' @ str_nat i @ ''_artifacts'') (PyArtifacts (so_artifacts out)))
    \<and> execute_step py hf w s ctx = (out, w1)
    \<and> so_status out = SUCCESS \<and> so_step_name out = step_name s
    \<and> so_error out = None
    \<and> (\<exists>r. so_result out = Some r \<and> so_artifacts out = extract_artifacts (step_name s) r)
    \<and> db w1 = db w \<and> step_history w1 = step_history w
    \<and> call_log w1 = call_log w @ [StepCall (step_name s)]"
proof -
  obtain r w1 where e: "execute_step py hf w s ctx =
     (\<lparr>so_step_name = step_name s, so_status = SUCCESS, so_result = Some r,
       so_error = None, so_artifacts = extract_artifacts (step_name s) r,
       so_execution_time = 1\<rparr>, w1)"
    and f: "db w1 = db w" "step_history w1 = step_history w"
      "call_log w1 = call_log w @ [StepCall (step_name s)]"
    using execute_step_handled [OF assms, of py hf w ctx] by blast
  show ?thesis using e f by (simp add: Let_def)
qed

lemma run_steps_spec:
  assumes "run_steps py hf rid pid i ss (w, res, ctx) = (w', res', ctx')"
    and "step_history w rid = Some h"
  shows "\<exists>outs. r_steps res' = r_steps res @ outs
    \<and> map so_step_name outs = map step_name (attempted ss)
    \<and> map so_status outs = map expected_status (attempted ss)
    \<and> list_all2 (\<lambda>out s. \<exists>w0 c. fst (execute_step py hf w0 s c) = out) outs (attempted ss)
    \<and> r_status res' = (if all_handled ss then r_status res else ''FAILED'')
    \<and> step_history w' rid = Some (h @ outs)
    \<and> (\<forall>rid'. rid' \<noteq> rid \<longrightarrow> step_history w' rid' = step_history w rid')
    \<and> call_log w' = call_log w @ map (\<lambda>s. StepCall (step_name s)) (attempted ss)
    \<and> (all_handled ss \<longrightarrow> runs (db w') = runs (db w))
    \<and> (\<not> all_handled ss \<longrightarrow> (\<forall>r. get_run (db w) rid = Some r \<longrightarrow>
          (\<exists>t. get_run (db w') rid = Some (r\<lparr>run_status := Some ''FAILED'', run_finished_at := Some t\<rparr>))))
    \<and> r_final_artifacts res' = r_final_artifacts res
    \<and> r_assembled_code res' = r_assembled_code res"
  using assms
proof (induction ss arbitrary: i w res ctx h)
  case Nil
  then show ?case by (simp add: all_handled_def)
next
  case (Cons s rest)
  show ?case
  proof (cases "handled (model_type s)")
    case False
    obtain out w1 where
      eq: "run_steps py hf rid pid i (s # rest) (w, res, ctx) =
        (update_run (history_append w1 rid out) rid ''FAILED'',
         res\<lparr>r_steps := r_steps res @ [out], r_status := ''FAILED'',
          r_error := Some (''Pipeline stopped at step '' @ [CHR 0x27] @ step_name s
             @ [CHR 0x27] @ '': '' @ ''Unknown model type: '' @ format_model_type py (model_type s))\<rparr>,
         ctx)"
      and o: "so_status out = FAILED" "so_step_name out = step_name s"
      and x: "execute_step py hf w s ctx = (out, w1)"
      and f: "db w1 = db w" "step_history w1 = step_history w"
        "call_log w1 = call_log w @ [StepCall (step_name s)]"
      using run_steps_unhandled [OF False, of py hf rid pid i rest w res ctx] by blast
    from eq Cons.prems(1) have w': "w' = update_run (history_append w1 rid out) rid ''FAILED''"
      and res': "res' = res\<lparr>r_steps := r_steps res @ [out], r_status := ''FAILED'',
          r_error := Some (''Pipeline stopped at step '' @ [CHR 0x27] @ step_name s
             @ [CHR 0x27] @ '': '' @ ''Unknown model type: '' @ format_model_type py (model_type s))\<rparr>"
      by simp_all
    have hist: "step_history w' rid = Some (h @ [out])"
      "\<forall>rid'. rid' \<noteq> rid \<longrightarrow> step_history w' rid' = step_history w rid'"
      "call_log w' = call_log w @ [StepCall (step_name s)]"
      using f Cons.prems(2) by (simp_all add: w' update_run_frame history_append_frame)
    have pers: "\<forall>r. get_run (db w) rid = Some r \<longrightarrow>
          (\<exists>t. get_run (db w') rid = Some (r\<lparr>run_status := Some ''FAILED'', run_finished_at := Some t\<rparr>))"
    proof (intro allI impI)
      fix r assume "get_run (db w) rid = Some r"
      then have "get_run (db (history_append w1 rid out)) rid = Some r"
        using f by (simp add: history_append_frame)
      from update_run_terminal [OF this, of "''FAILED''"]
      show "\<exists>t. get_run (db w') rid = Some (r\<lparr>run_status := Some ''FAILED'', run_finished_at := Some t\<rparr>)"
        by (auto simp: w')
    qed
    have "r_steps res' = r_steps res @ [out]" by (simp add: res')
    moreover have "map so_step_name [out] = map step_name (attempted (s # rest))"
      using False o by simp
    moreover have "map so_status [out] = map expected_status (attempted (s # rest))"
      using False o by (simp add: expected_status_def)
    moreover have "list_all2 (\<lambda>out s. \<exists>w0 c. fst (execute_step py hf w0 s c) = out) [out]
        (attempted (s # rest))"
      using False x by (simp, metis fst_conv)
    moreover have "r_status res' = (if all_handled (s # rest) then r_status res else ''FAILED'')"
      using False by (simp add: res' all_handled_def)
    moreover have "call_log w' = call_log w @ map (\<lambda>s. StepCall (step_name s)) (attempted (s # rest))"
      using False hist by simp
    moreover have "\<not> all_handled (s # rest)" using False by (simp add: all_handled_def)
    moreover have "r_final_artifacts res' = r_final_artifacts res"
      "r_assembled_code res' = r_assembled_code res" by (simp_all add: res')
    ultimately show ?thesis using hist pers by blast
  next
    case True
    obtain out w1 where
      eq: "run_steps py hf rid pid i (s # rest) (w, res, ctx) =
        run_steps py hf rid pid (Suc i) rest
          (foldl (\<lambda>w a. save_artifact w rid pid a) (history_append w1 rid out) (so_artifacts out),
           res\<lparr>r_steps := r_steps res @ [out]\<rparr>,
           dict_set (dict_set ctx (''step_'' @ str_nat i @ ''_output'') (result_value (so_result out)))
             (''step_'' @ str_nat i @ ''_artifacts'') (PyArtifacts (so_artifacts out)))"
      and o: "so_status out = SUCCESS" "so_step_name out = step_name s"
      and x: "execute_step py hf w s ctx = (out, w1)"
      and f: "db w1 = db w" "step_history w1 = step_history w"
        "call_log w1 = call_log w @ [StepCall (step_name s)]"
      using run_steps_handled [OF True, of py hf rid pid i rest w res ctx] by blast
    let ?w2 = "foldl (\<lambda>w a. save_artifact w rid pid a) (history_append w1 rid out) (so_artifacts out)"
    let ?res2 = "res\<lparr>r_steps := r_steps res @ [out]\<rparr>"
    have w2: "step_history ?w2 rid = Some (h @ [out])"
      "\<forall>rid'. rid' \<noteq> rid \<longrightarrow> step_history ?w2 rid' = step_history w rid'"
      "call_log ?w2 = call_log w @ [StepCall (step_name s)]"
      "runs (db ?w2) = runs (db w)"
      using f Cons.prems(2) by (simp_all add: save_artifacts_frame history_append_frame)
    from eq Cons.prems(1) have "run_steps py hf rid pid (Suc i) rest
          (?w2, ?res2,
           dict_set (dict_set ctx (''step_'' @ str_nat i @ ''_output'') (result_value (so_result out)))
             (''step_'' @ str_nat i @ ''_artifacts'') (PyArtifacts (so_artifacts out))) = (w', res', ctx')"
      by simp
    from Cons.IH [OF this w2(1)] obtain outs where
      ih: "r_steps res' = r_steps ?res2 @ outs"
        "map so_step_name outs = map step_name (attempted rest)"
        "map so_status outs = map expected_status (attempted rest)"
        "r_status res' = (if all_handled rest then r_status ?res2 else ''FAILED'')"
        "step_history w' rid = Some ((h @ [out]) @ outs)"
        "\<forall>rid'. rid' \<noteq> rid \<longrightarrow> step_history w' rid' = step_history ?w2 rid'"
        "call_log w' = call_log ?w2 @ map (\<lambda>s. StepCall (step_name s)) (attempted rest)"
        "all_handled rest \<longrightarrow> runs (db w') = runs (db ?w2)"
        "\<not> all_handled rest \<longrightarrow> (\<forall>r. get_run (db ?w2) rid = Some r \<longrightarrow>
          (\<exists>t. get_run (db w') rid = Some (r\<lparr>run_status := Some ''FAILED'', run_finished_at := Some t\<rparr>)))"
        "r_final_artifacts res' = r_final_artifacts ?res2"
        "r_assembled_code res' = r_assembled_code ?res2"
        "list_all2 (\<lambda>out s. \<exists>w0 c. fst (execute_step py hf w0 s c) = out) outs (attempted rest)"
      by blast
    have ah: "all_handled (s # rest) = all_handled rest" using True by (simp add: all_handled_def)
    have gr: "get_run (db ?w2) rid = get_run (db w) rid" using w2(4) by (simp add: get_run_def)
    have "r_steps res' = r_steps res @ (out # outs)" using ih(1) by simp
    moreover have "map so_step_name (out # outs) = map step_name (attempted (s # rest))"
      using True o ih(2) by simp
    moreover have "map so_status (out # outs) = map expected_status (attempted (s # rest))"
      using True o ih(3) by (simp add: expected_status_def)
    moreover have "list_all2 (\<lambda>out s. \<exists>w0 c. fst (execute_step py hf w0 s c) = out) (out # outs)
        (attempted (s # rest))"
      using True x ih(12) by (simp, metis fst_conv)
    moreover have "r_status res' = (if all_handled (s # rest) then r_status res else ''FAILED'')"
      using ih(4) ah by simp
    moreover have "step_history w' rid = Some (h @ (out # outs))" using ih(5) by simp
    moreover have "\<forall>rid'. rid' \<noteq> rid \<longrightarrow> step_history w' rid' = step_history w rid'"
      using ih(6) w2(2) by simp
    moreover have "call_log w' = call_log w @ map (\<lambda>s. StepCall (step_name s)) (attempted (s # rest))"
      using True ih(7) w2(3) by simp
    moreover have "all_handled (s # rest) \<longrightarrow> runs (db w') = runs (db w)"
      using ih(8) ah w2(4) by simp
    moreover have "\<not> all_handled (s # rest) \<longrightarrow> (\<forall>r. get_run (db w) rid = Some r \<longrightarrow>
          (\<exists>t. get_run (db w') rid = Some (r\<lparr>run_status := Some ''FAILED'', run_finished_at := Some t\<rparr>)))"
      using ih(9) ah gr by simp
    moreover have "r_final_artifacts res' = r_final_artifacts res"
      "r_assembled_code res' = r_assembled_code res" using ih(10,11) by simp_all
    ultimately show ?thesis by blast
  qed
qed

lemma run_assembler_frame:
  "run_assembler hf w rid pid ctx outs = (asm, w') \<Longrightarrow>
   db w' = db w \<and> step_history w' = step_history w \<and> clock w' = clock w \<and>
   call_log w' = call_log w @ [AssemblerCall]"
  by (auto simp: run_assembler_def Let_def split: option.splits prod.splits sum.splits)



lemma execute_pipeline_unfold:
  assumes "run_steps py hf rid (project_id p) 0 (steps p)
      (update_run (w\<lparr>step_history := (step_history w)(rid \<mapsto> []), clock := Suc (clock w)\<rparr>) rid ''RUNNING'',
       \<lparr>r_run_id = rid, r_project_id = project_id p, r_status = ''RUNNING'',
         r_steps = [], r_final_artifacts = [], r_started_at = clock w,
         r_error = None, r_assembled_code = None, r_finished_at = None\<rparr>,
       global_context p) = (w3, res3, ctx3)"
  shows "execute_pipeline py hf w p rid =
     (if r_status res3 = ''RUNNING'' then
        (let (assembled, w4) = run_assembler hf w3 rid (project_id p) ctx3
                 (case step_history w3 rid of Some h \<Rightarrow> h | None \<Rightarrow> []);
             w5 = update_run w4 rid ''SUCCESS''
         in (res3\<lparr>r_final_artifacts := asm_artifacts assembled,
                  r_assembled_code := Some (asm_assembled_code assembled),
                  r_status := ''SUCCESS'', r_finished_at := Some (clock w5)\<rparr>,
             w5\<lparr>clock := Suc (clock w5)\<rparr>))
      else (res3\<lparr>r_finished_at := Some (clock w3)\<rparr>, w3\<lparr>clock := Suc (clock w3)\<rparr>))"
  using assms by (simp add: execute_pipeline_def now_def Let_def split: prod.splits)

lemma execute_pipeline_spec:
  assumes "execute_pipeline py hf w p rid = (res, w')"
  shows "map so_step_name (r_steps res) = map step_name (attempted (steps p))
    \<and> map so_status (r_steps res) = map expected_status (attempted (steps p))
    \<and> list_all2 (\<lambda>out s. \<exists>w0 c. fst (execute_step py hf w0 s c) = out) (r_steps res)
          (attempted (steps p))
    \<and> r_status res = (if all_handled (steps p) then ''SUCCESS'' else ''FAILED'')
    \<and> step_history w' rid = Some (r_steps res)
    \<and> (\<forall>rid'. rid' \<noteq> rid \<longrightarrow> step_history w' rid' = step_history w rid')
    \<and> call_log w' = call_log w @ map (\<lambda>s. StepCall (step_name s)) (attempted (steps p))
          @ (if all_handled (steps p) then [AssemblerCall] else [])
    \<and> (\<forall>r. get_run (db w) rid = Some r \<longrightarrow>
          (\<exists>t. get_run (db w') rid = Some (r\<lparr>run_status := Some (r_status res), run_finished_at := Some t\<rparr>)))
    \<and> (all_handled (steps p) \<longrightarrow>
          (\<exists>w3 ctx3. r_final_artifacts res
              = asm_artifacts (fst (run_assembler hf w3 rid (project_id p) ctx3 (r_steps res)))
            \<and> r_assembled_code res
              = Some (asm_assembled_code (fst (run_assembler hf w3 rid (project_id p) ctx3 (r_steps res))))))
    \<and> (\<not> all_handled (steps p) \<longrightarrow> r_final_artifacts res = [] \<and> r_assembled_code res = None)"
proof -
  let ?w1 = "w\<lparr>step_history := (step_history w)(rid \<mapsto> []), clock := Suc (clock w)\<rparr>"
  let ?w2 = "update_run ?w1 rid ''RUNNING''"
  let ?res0 = "\<lparr>r_run_id = rid, r_project_id = project_id p, r_status = ''RUNNING'',
         r_steps = [], r_final_artifacts = [], r_started_at = clock w,
         r_error = None, r_assembled_code = None, r_finished_at = None\<rparr>"
  obtain w3 res3 ctx3 where
    loop: "run_steps py hf rid (project_id p) 0 (steps p) (?w2, ?res0, global_context p) = (w3, res3, ctx3)"
    by (metis prod_cases3)
  have h2: "step_history ?w2 rid = Some []" by (simp add: update_run_frame)
  from run_steps_spec [OF loop h2] obtain outs where
    sp: "r_steps res3 = r_steps ?res0 @ outs"
      "map so_step_name outs = map step_name (attempted (steps p))"
      "map so_status outs = map expected_status (attempted (steps p))"
      "list_all2 (\<lambda>out s. \<exists>w0 c. fst (execute_step py hf w0 s c) = out) outs (attempted (steps p))"
      "r_status res3 = (if all_handled (steps p) then r_status ?res0 else ''FAILED'')"
      "step_history w3 rid = Some ([] @ outs)"
      "\<forall>rid'. rid' \<noteq> rid \<longrightarrow> step_history w3 rid' = step_history ?w2 rid'"
      "call_log w3 = call_log ?w2 @ map (\<lambda>s. StepCall (step_name s)) (attempted (steps p))"
      "all_handled (steps p) \<longrightarrow> runs (db w3) = runs (db ?w2)"
      "\<not> all_handled (steps p) \<longrightarrow> (\<forall>r. get_run (db ?w2) rid = Some r \<longrightarrow>
          (\<exists>t. get_run (db w3) rid = Some (r\<lparr>run_status := Some ''FAILED'', run_finished_at := Some t\<rparr>)))"
      "r_final_artifacts res3 = r_final_artifacts ?res0"
      "r_assembled_code res3 = r_assembled_code ?res0"
    by blast
  have steps3: "r_steps res3 = outs" using sp(1) by simp
  have hist3: "step_history w3 rid = Some outs" using sp(6) by simp
  have other3: "\<forall>rid'. rid' \<noteq> rid \<longrightarrow> step_history w3 rid' = step_history w rid'"
    using sp(7) by (simp add: update_run_frame)
  have log3: "call_log w3 = call_log w @ map (\<lambda>s. StepCall (step_name s)) (attempted (steps p))"
    using sp(8) by (simp add: update_run_frame)
  have run2: "\<forall>r. get_run (db w) rid = Some r \<longrightarrow>
      get_run (db ?w2) rid = Some (r\<lparr>run_status := Some ''RUNNING''\<rparr>)"
  proof (intro allI impI)
    fix r assume "get_run (db w) rid = Some r"
    then have "get_run (db ?w1) rid = Some r" by simp
    from update_run_other [OF this, of "''RUNNING''"]
    show "get_run (db ?w2) rid = Some (r\<lparr>run_status := Some ''RUNNING''\<rparr>)" by simp
  qed
  note unf = execute_pipeline_unfold [OF loop]
  show ?thesis
  proof (cases "all_handled (steps p)")
    case False
    then have st: "r_status res3 = ''FAILED''" using sp(5) by simp
    from unf st assms have res: "res = res3\<lparr>r_finished_at := Some (clock w3)\<rparr>"
      and w': "w' = w3\<lparr>clock := Suc (clock w3)\<rparr>" by simp_all
    have pers: "\<forall>r. get_run (db w) rid = Some r \<longrightarrow>
          (\<exists>t. get_run (db w') rid = Some (r\<lparr>run_status := Some (r_status res), run_finished_at := Some t\<rparr>))"
    proof (intro allI impI)
      fix r assume "get_run (db w) rid = Some r"
      with run2 have "get_run (db ?w2) rid = Some (r\<lparr>run_status := Some ''RUNNING''\<rparr>)" by blast
      with sp(10) False obtain t where
        "get_run (db w3) rid = Some (r\<lparr>run_status := Some ''RUNNING''\<rparr>
            \<lparr>run_status := Some ''FAILED'', run_finished_at := Some t\<rparr>)" by blast
      then show "\<exists>t. get_run (db w') rid = Some (r\<lparr>run_status := Some (r_status res), run_finished_at := Some t\<rparr>)"
        by (auto simp: w' res st)
    qed
    show ?thesis using False sp(2,3,4,11,12) steps3 hist3 other3 log3 pers
      by (simp add: res w' st)
  next
    case True
    then have st: "r_status res3 = ''RUNNING''" using sp(5) by simp
    obtain asm w4 where asm: "run_assembler hf w3 rid (project_id p) ctx3 outs = (asm, w4)"
      by (metis surj_pair)
    note fr = run_assembler_frame [OF asm]
    let ?w5 = "update_run w4 rid ''SUCCESS''"
    from unf st assms hist3 asm have
      res: "res = res3\<lparr>r_final_artifacts := asm_artifacts asm,
                  r_assembled_code := Some (asm_assembled_code asm),
                  r_status := ''SUCCESS'', r_finished_at := Some (clock ?w5)\<rparr>"
      and w': "w' = ?w5\<lparr>clock := Suc (clock ?w5)\<rparr>" by (simp_all add: Let_def)
    have pers: "\<forall>r. get_run (db w) rid = Some r \<longrightarrow>
          (\<exists>t. get_run (db w') rid = Some (r\<lparr>run_status := Some (r_status res), run_finished_at := Some t\<rparr>))"
    proof (intro allI impI)
      fix r assume "get_run (db w) rid = Some r"
      with run2 have "get_run (db ?w2) rid = Some (r\<lparr>run_status := Some ''RUNNING''\<rparr>)" by blast
      then have "get_run (db w4) rid = Some (r\<lparr>run_status := Some ''RUNNING''\<rparr>)"
        using sp(9) True fr by (simp add: get_run_def)
      from update_run_terminal [OF this, of "''SUCCESS''"]
      show "\<exists>t. get_run (db w') rid = Some (r\<lparr>run_status := Some (r_status res), run_finished_at := Some t\<rparr>)"
        by (auto simp: w' res)
    qed
    have a: "r_final_artifacts res
              = asm_artifacts (fst (run_assembler hf w3 rid (project_id p) ctx3 (r_steps res)))
            \<and> r_assembled_code res
              = Some (asm_assembled_code (fst (run_assembler hf w3 rid (project_id p) ctx3 (r_steps res))))"
      using asm steps3 by (simp add: res)
    have "step_history w' rid = Some (r_steps res)"
      using hist3 fr steps3 by (simp add: w' res update_run_frame)
    moreover have "\<forall>rid'. rid' \<noteq> rid \<longrightarrow> step_history w' rid' = step_history w rid'"
      using other3 fr by (simp add: w' update_run_frame)
    moreover have "call_log w' = call_log w @ map (\<lambda>s. StepCall (step_name s)) (attempted (steps p))
          @ [AssemblerCall]"
      using log3 fr by (simp add: w' update_run_frame)
    ultimately show ?thesis using True sp(2,3,4) steps3 pers a
      by (simp add: res) blast
  qed
qed





section \<open>The run controller stops at the first failure and assembles after full success\<close>





section \<open>Failures of steps and of backends\<close>

text \<open>
  Claim C4. For a step whose model type is none of CodeLlama, CodeGemma, T5Gemma, the
  executor returns a FAILED result with no result text, no artifacts, and an error
  message that contains \<open>Unknown model type\<close>; a run whose steps include such a step
  ends with status \<open>"FAILED"\<close>.
\<close>

theorem unknown_model_type_fails:
  fixes hf :: "'b generate option" and w w1 :: "'b world"
  assumes "model_type s \<notin> {CODE_LLAMA, CODE_GEMMA, T5_GEMMA}"
  shows "so_status (fst (execute_step py hf w s c)) = FAILED
    \<and> (\<exists>e. so_error (fst (execute_step py hf w s c)) = Some e \<and> sublist ''Unknown model type'' e)
    \<and> so_artifacts (fst (execute_step py hf w s c)) = []
    \<and> so_result (fst (execute_step py hf w s c)) = None
    \<and> (s \<in> set (steps p) \<longrightarrow> r_status (fst (execute_pipeline py hf w1 p rid)) = ''FAILED'')"
proof -
  have u: "\<not> handled (model_type s)" using assms by (simp add: handled_def)
  have "sublist ''Unknown model type''
      (''Unknown model type: '' @ format_model_type py (model_type s))"
  proof -
    have "''Unknown model type: '' @ format_model_type py (model_type s)
        = [] @ ''Unknown model type'' @ ('': '' @ format_model_type py (model_type s))" by simp
    then show ?thesis unfolding sublist_def by blast
  qed
  then have step: "so_status (fst (execute_step py hf w s c)) = FAILED
    \<and> (\<exists>e. so_error (fst (execute_step py hf w s c)) = Some e \<and> sublist ''Unknown model type'' e)
    \<and> so_artifacts (fst (execute_step py hf w s c)) = []
    \<and> so_result (fst (execute_step py hf w s c)) = None"
    by (simp add: execute_step_unknown [OF u])
  have "r_status (fst (execute_pipeline py hf w1 p rid)) = ''FAILED''" if "s \<in> set (steps p)"
  proof -
    obtain res w' where e: "execute_pipeline py hf w1 p rid = (res, w')" by (metis surj_pair)
    have "\<not> all_handled (steps p)" using that u by (auto simp: all_handled_def list_all_iff)
    with execute_pipeline_spec [OF e] show ?thesis by (simp add: e)
  qed
  with step show ?thesis by blast
qed

theorem unknown_model_type_fails_witness:
  "model_type bad_step \<notin> {CODE_LLAMA, CODE_GEMMA, T5_GEMMA}
   \<and> so_status (fst (execute_step py0 None w0 bad_step [])) = FAILED
   \<and> (\<exists>e. so_error (fst (execute_step py0 None w0 bad_step [])) = Some e
          \<and> sublist ''Unknown model type'' e)
   \<and> so_artifacts (fst (execute_step py0 None w0 bad_step [])) = []
   \<and> r_status (fst (execute_pipeline py0 None w0 pipeline_bad 7)) = ''FAILED''"
proof -
  have m: "model_type bad_step \<notin> {CODE_LLAMA, CODE_GEMMA, T5_GEMMA}"
    by (simp add: bad_step_def CODE_LLAMA_def CODE_GEMMA_def T5_GEMMA_def)
  have i: "bad_step \<in> set (steps pipeline_bad)" by (simp add: pipeline_bad_def)
  from unknown_model_type_fails [OF m, of py0 None w0 "[]" pipeline_bad w0 7] m i
  show ?thesis by blast
qed





section \<open>Run summaries\<close>

lemma expected_status_cases: "expected_status s = SUCCESS \<or> expected_status s = FAILED"
  by (simp add: expected_status_def)

lemma reachable_history_ok: "reachable py hf w \<Longrightarrow> history_ok w"
proof (induction rule: reachable.induct)
  case (init d b t u)
  then show ?case by (simp add: history_ok_def new_service_def)
next
  case (run w pipeline rid)
  obtain res w' where e: "execute_pipeline py hf w pipeline rid = (res, w')" by (metis surj_pair)
  note sp = execute_pipeline_spec [OF e]
  have here: "\<forall>out\<in>set (r_steps res). so_status out = SUCCESS \<or> so_status out = FAILED"
  proof
    fix out assume "out \<in> set (r_steps res)"
    then have "so_status out \<in> set (map so_status (r_steps res))" by simp
    with sp have "so_status out \<in> set (map expected_status (attempted (steps pipeline)))" by simp
    then obtain x where "so_status out = expected_status x" by auto
    then show "so_status out = SUCCESS \<or> so_status out = FAILED"
      using expected_status_cases [of x] by simp
  qed
  have "history_ok w'"
    unfolding history_ok_def
  proof (intro allI impI)
    fix rid' h assume h: "step_history w' rid' = Some h"
    show "\<forall>out\<in>set h. so_status out = SUCCESS \<or> so_status out = FAILED"
    proof (cases "rid' = rid")
      case True
      with h sp have "h = r_steps res" by simp
      with here show ?thesis by simp
    next
      case False
      with sp have "step_history w' rid' = step_history w rid'" by blast
      with h run.IH show ?thesis by (simp add: history_ok_def)
    qed
  qed
  then show ?case by (simp add: e)
qed

lemma count_two_statuses:
  "\<forall>out\<in>set h. so_status out = SUCCESS \<or> so_status out = FAILED \<Longrightarrow>
   length (filter (\<lambda>step. so_status step = SUCCESS) h)
     + length (filter (\<lambda>step. so_status step = FAILED) h) = length h"
  by (induction h) auto

text \<open>
  Claim C10. Every result of the step executor is SUCCESS or FAILED. In every state a
  service reaches from a new one by running pipelines, every recorded history holds only
  SUCCESS and FAILED results, so the summary of every run id has
  \<open>successful_steps + failed_steps = total_steps\<close>. For a run id with no recorded
  history the summary is all zero with an empty step list.
\<close>

theorem run_summary_counts:
  fixes hf :: "'b generate option" and w w0 w1 :: "'b world"
  shows "(so_status (fst (execute_step py hf w0 s c)) = SUCCESS
          \<or> so_status (fst (execute_step py hf w0 s c)) = FAILED)
    \<and> (reachable py hf w \<longrightarrow>
         (\<forall>rid h. step_history w rid = Some h \<longrightarrow>
            (\<forall>out\<in>set h. so_status out = SUCCESS \<or> so_status out = FAILED))
         \<and> (\<forall>rid. successful_steps (get_run_summary w rid) + failed_steps (get_run_summary w rid)
                    = total_steps (get_run_summary w rid)))
    \<and> (step_history w1 rid1 = None \<longrightarrow>
         get_run_summary w1 rid1 =
           \<lparr>s_run_id = rid1, total_steps = 0, successful_steps = 0, failed_steps = 0,
            total_execution_time = 0, s_steps = []\<rparr>)"
proof (intro conjI impI allI)
  show "so_status (fst (execute_step py hf w0 s c)) = SUCCESS
          \<or> so_status (fst (execute_step py hf w0 s c)) = FAILED"
    using expected_status_cases [of s] by (simp add: execute_step_status)
next
  fix rid h assume "reachable py hf w" and "step_history w rid = Some h"
  then show "\<forall>out\<in>set h. so_status out = SUCCESS \<or> so_status out = FAILED"
    using reachable_history_ok [of py hf w] by (simp add: history_ok_def)
next
  fix rid assume r: "reachable py hf w"
  have "\<forall>out\<in>set (get_step_history w rid). so_status out = SUCCESS \<or> so_status out = FAILED"
  proof (cases "step_history w rid")
    case None
    then show ?thesis by (simp add: get_step_history_def)
  next
    case (Some h)
    with reachable_history_ok [OF r] show ?thesis
      unfolding history_ok_def get_step_history_def by (metis option.simps(5))
  qed
  from count_two_statuses [OF this]
  show "successful_steps (get_run_summary w rid) + failed_steps (get_run_summary w rid)
                    = total_steps (get_run_summary w rid)"
    by (simp add: get_run_summary_def Let_def)
next
  assume "step_history w1 rid1 = None"
  then show "get_run_summary w1 rid1 =
           \<lparr>s_run_id = rid1, total_steps = 0, successful_steps = 0, failed_steps = 0,
            total_execution_time = 0, s_steps = []\<rparr>"
    by (simp add: get_run_summary_def get_step_history_def Let_def)
qed

theorem run_summary_counts_witness:
  "reachable py0 None (snd (execute_pipeline py0 None w0 pipeline_bad 7))
   \<and> successful_steps (get_run_summary (snd (execute_pipeline py0 None w0 pipeline_bad 7)) 7)
     + failed_steps (get_run_summary (snd (execute_pipeline py0 None w0 pipeline_bad 7)) 7)
     = total_steps (get_run_summary (snd (execute_pipeline py0 None w0 pipeline_bad 7)) 7)
   \<and> step_history w0 9 = None
   \<and> get_run_summary w0 9 =
        \<lparr>s_run_id = 9, total_steps = 0, successful_steps = 0, failed_steps = 0,
         total_execution_time = 0, s_steps = []\<rparr>"
proof -
  have "reachable py0 (None :: unit generate option) w0"
    unfolding w0_def by (rule reachable.init)
  then have r: "reachable py0 None (snd (execute_pipeline py0 None w0 pipeline_bad 7))"
    by (rule reachable.run)
  have n: "step_history w0 9 = None" by (simp add: w0_def new_service_def)
  note t = run_summary_counts [of py0 None w0 good_step "[]"
      "snd (execute_pipeline py0 None w0 pipeline_bad 7)" w0 9]
  from t r have "successful_steps (get_run_summary (snd (execute_pipeline py0 None w0 pipeline_bad 7)) 7)
     + failed_steps (get_run_summary (snd (execute_pipeline py0 None w0 pipeline_bad 7)) 7)
     = total_steps (get_run_summary (snd (execute_pipeline py0 None w0 pipeline_bad 7)) 7)"
    by blast
  moreover from t n have "get_run_summary w0 9 =
        \<lparr>s_run_id = 9, total_steps = 0, successful_steps = 0, failed_steps = 0,
         total_execution_time = 0, s_steps = []\<rparr>"
    by blast
  ultimately show ?thesis using r n by simp
qed

section \<open>Finish times of run records\<close>





section \<open>Deleting projects and runs\<close>

lemma delete_project_missing:
  "get_project d pid = None \<Longrightarrow> delete_project d pid = (Inr False, d)"
  by (simp add: delete_project_def)

lemma delete_project_existing:
  "get_project d pid = Some pr \<Longrightarrow> delete_project d pid = (Inl (AttributeError ''delete''), d)"
  by (simp add: delete_project_def ScalarResult_delete_def)

lemma delete_run_existing:
  "get_run d rid = Some r \<Longrightarrow> delete_run d rid = (Inl (AttributeError ''delete''), d)"
  by (simp add: delete_run_def ScalarResult_delete_def)

text \<open>
  Claim C7, at a store with one project, one context, one run and one artifact of that
  run: \<open>delete_project\<close> on the project raises \<open>AttributeError\<close> at its first bulk
  delete and leaves the store as it was, so the three dependent queries still return
  their rows; \<open>delete_run\<close> on the run does the same.
\<close>

theorem delete_project_raises:
  "get_project db0 1 = Some project1
   \<and> delete_project db0 1 = (Inl (AttributeError ''delete''), db0)
   \<and> list_context_by_project (snd (delete_project db0 1)) 1 0 100 = [context1]
   \<and> list_runs_by_project (snd (delete_project db0 1)) 1 0 50 = [run7]
   \<and> list_artifacts_by_project (snd (delete_project db0 1)) 1 0 100 = [artifact1]
   \<and> get_run db0 7 = Some run7
   \<and> delete_run db0 7 = (Inl (AttributeError ''delete''), db0)
   \<and> list_artifacts_by_run (snd (delete_run db0 7)) 7 0 100 = [artifact1]"
  by (simp add: delete_project_def delete_run_def ScalarResult_delete_def get_project_def
      get_run_def db0_def project1_def run7_def context1_def artifact1_def
      list_context_by_project_def list_runs_by_project_def list_artifacts_by_project_def
      list_artifacts_by_run_def)

end
